theory Spec2Isabelle
  imports Main
begin

section \<open>Strings\<close>

text \<open>
  Python strings are modelled as HOL strings (lists of characters); the model covers
  ASCII text, where \<open>len\<close> is \<open>length\<close>. \<open>space_chars\<close> are the ASCII characters
  for which \<open>str.isspace\<close> holds; they are what \<open>str.strip()\<close> removes and what
  \<open>\s\<close> matches. \<open>word_chars\<close> are what \<open>\w\<close> matches.
\<close>

definition space_chars :: string where
  "space_chars = [CHR 0x20, CHR 0x0A, CHR 0x09, CHR 0x0D, CHR 0x0B, CHR 0x0C,
                  CHR 0x1C, CHR 0x1D, CHR 0x1E, CHR 0x1F]"

definition upper_chars :: string where
  "upper_chars = ''ABCDEFGHIJKLMNOPQRSTUVWXYZ''"

definition lower_chars :: string where
  "lower_chars = ''abcdefghijklmnopqrstuvwxyz''"

definition digit_chars :: string where
  "digit_chars = ''0123456789''"

definition word_chars :: string where
  "word_chars = lower_chars @ upper_chars @ digit_chars @ ''_''"

definition is_space :: "char \<Rightarrow> bool" where
  "is_space c = (c \<in> set space_chars)"

definition is_word :: "char \<Rightarrow> bool" where
  "is_word c = (c \<in> set word_chars)"

definition lower_char :: "char \<Rightarrow> char" where
  "lower_char c = (case map_of (zip upper_chars lower_chars) c of Some d \<Rightarrow> d | None \<Rightarrow> c)"

definition lower :: "string \<Rightarrow> string" where
  "lower s = map lower_char s"

definition strip :: "string \<Rightarrow> string" where
  "strip s = rev (dropWhile is_space (rev (dropWhile is_space s)))"

fun starts_with :: "string \<Rightarrow> string \<Rightarrow> bool" where
  "starts_with s [] = True"
| "starts_with [] (p # ps) = False"
| "starts_with (c # s) (p # ps) = (c = p \<and> starts_with s ps)"

text \<open>\<open>contains pat s\<close> is Python's \<open>pat in s\<close>.\<close>

fun contains :: "string \<Rightarrow> string \<Rightarrow> bool" where
  "contains pat [] = (pat = [])"
| "contains pat (c # s) = (if starts_with (c # s) pat then True else contains pat s)"

text \<open>\<open>join sep xs\<close> is Python's \<open>sep.join(xs)\<close>.\<close>

fun join :: "string \<Rightarrow> string list \<Rightarrow> string" where
  "join sep [] = []"
| "join sep [x] = x"
| "join sep (x # y # ys) = x @ sep @ join sep (y # ys)"

text \<open>Decimal formatting of a natural number, as an f-string prints it.\<close>

definition digit_char :: "nat \<Rightarrow> char" where
  "digit_char d = digit_chars ! d"

fun str_nat :: "nat \<Rightarrow> string" where
  "str_nat n = (if n < 10 then [digit_char n] else str_nat (n div 10) @ [digit_char (n mod 10)])"

declare str_nat.simps [simp del]

text \<open>The format \<open>{n:03}\<close>: decimal, padded with zeros on the left to width 3.\<close>

definition pad3 :: "nat \<Rightarrow> string" where
  "pad3 n = replicate (3 - length (str_nat n)) (CHR ''0'') @ str_nat n"

section \<open>Regular expressions\<close>

text \<open>
  The patterns of the program are written as terms of \<open>rx\<close> and run by a backtracking
  matcher that lists the ways a pattern can match at a position in Python's order of
  preference (greedy repetition first, alternatives left to right), so that the first
  element of the list is the match \<open>re\<close> reports. A matcher state is the character before
  the position (\<open>None\<close> at the start of the string), the rest of the string and the groups
  captured so far. \<open>ILit c\<close> is a literal under \<open>re.IGNORECASE\<close>, with \<open>c\<close> given in lower
  case.
\<close>

datatype rx =
    Lit char
  | ILit char
  | Cls string
  | NCls string
  | Eps
  | Seq rx rx
  | Alt rx rx
  | Star rx
  | Bol
  | Eol
  | Wb
  | NotAhead rx
  | Grp nat rx

type_synonym rx_state = "char option \<times> string \<times> (nat \<times> string) list"

fun step_char :: "(char \<Rightarrow> bool) \<Rightarrow> rx_state \<Rightarrow> rx_state list" where
  "step_char P (p, [], g) = []"
| "step_char P (p, c # s, g) = (if P c then [(Some c, s, g)] else [])"

text \<open>
  Repetition: try another round first, then stop. A round that consumes nothing is not
  repeated, and the length of the rest bounds the number of rounds.
\<close>

fun star_m :: "(rx_state \<Rightarrow> rx_state list) \<Rightarrow> nat \<Rightarrow> rx_state \<Rightarrow> rx_state list" where
  "star_m f 0 st = [st]"
| "star_m f (Suc n) st =
     concat (map (star_m f n)
       (filter (\<lambda>st'. length (fst (snd st')) < length (fst (snd st))) (f st))) @ [st]"

definition at_boundary :: "char option \<Rightarrow> string \<Rightarrow> bool" where
  "at_boundary p s =
     ((case p of None \<Rightarrow> False | Some c \<Rightarrow> is_word c) \<noteq>
      (case s of [] \<Rightarrow> False | c # _ \<Rightarrow> is_word c))"

fun rx_m :: "rx \<Rightarrow> rx_state \<Rightarrow> rx_state list" where
  "rx_m (Lit x) st = step_char (\<lambda>c. c = x) st"
| "rx_m (ILit x) st = step_char (\<lambda>c. lower_char c = x) st"
| "rx_m (Cls xs) st = step_char (\<lambda>c. c \<in> set xs) st"
| "rx_m (NCls xs) st = step_char (\<lambda>c. c \<notin> set xs) st"
| "rx_m Eps st = [st]"
| "rx_m (Seq a b) st = concat (map (rx_m b) (rx_m a st))"
| "rx_m (Alt a b) st = rx_m a st @ rx_m b st"
| "rx_m (Star a) st = star_m (rx_m a) (length (fst (snd st))) st"
| "rx_m Bol st = (if fst st = None then [st] else [])"
| "rx_m Eol st = (if fst (snd st) = [] \<or> fst (snd st) = [CHR 0x0A] then [st] else [])"
| "rx_m Wb st = (if at_boundary (fst st) (fst (snd st)) then [st] else [])"
| "rx_m (NotAhead a) st = (if rx_m a st = [] then [st] else [])"
| "rx_m (Grp n a) st = map (\<lambda>st'.
       (fst st', fst (snd st'),
        (n, take (length (fst (snd st)) - length (fst (snd st'))) (fst (snd st))) # snd (snd st')))
       (rx_m a st)"

definition str_rx :: "string \<Rightarrow> rx" where
  "str_rx s = foldr (\<lambda>c r. Seq (Lit c) r) s Eps"

definition istr :: "string \<Rightarrow> rx" where
  "istr s = foldr (\<lambda>c r. Seq (ILit c) r) s Eps"

definition cat :: "rx list \<Rightarrow> rx" where
  "cat rs = foldr Seq rs Eps"

definition alts :: "rx list \<Rightarrow> rx" where
  "alts rs = foldr Alt (butlast rs) (last rs)"

definition Plus :: "rx \<Rightarrow> rx" where
  "Plus r = Seq r (Star r)"

definition Opt :: "rx \<Rightarrow> rx" where
  "Opt r = Alt r Eps"

text \<open>\<open>pattern.match\<close> at a position: the preferred match, if there is one.\<close>

definition re_match_at :: "rx \<Rightarrow> char option \<Rightarrow> string \<Rightarrow> rx_state option" where
  "re_match_at r p s = (case rx_m r (p, s, []) of [] \<Rightarrow> None | st # _ \<Rightarrow> Some st)"

definition re_match :: "rx \<Rightarrow> string \<Rightarrow> bool" where
  "re_match r s = (re_match_at r None s \<noteq> None)"

text \<open>\<open>re.search\<close>: is there a match at some position, scanning from the left.\<close>

fun re_search_from :: "rx \<Rightarrow> char option \<Rightarrow> string \<Rightarrow> bool" where
  "re_search_from r p [] = (re_match_at r p [] \<noteq> None)"
| "re_search_from r p (c # s) =
     (if re_match_at r p (c # s) \<noteq> None then True else re_search_from r (Some c) s)"

definition re_search :: "rx \<Rightarrow> string \<Rightarrow> bool" where
  "re_search r s = re_search_from r None s"

text \<open>
  The leftmost match: the text before it and the matcher state after it.
\<close>

fun re_find_from :: "rx \<Rightarrow> char option \<Rightarrow> string \<Rightarrow> string \<Rightarrow> (string \<times> rx_state) option" where
  "re_find_from r p acc [] =
     (case re_match_at r p [] of None \<Rightarrow> None | Some st \<Rightarrow> Some (rev acc, st))"
| "re_find_from r p acc (c # s) =
     (case re_match_at r p (c # s) of
        Some st \<Rightarrow> Some (rev acc, st)
      | None \<Rightarrow> re_find_from r (Some c) (c # acc) s)"

text \<open>
  \<open>re.split\<close> and \<open>re.sub\<close>, for patterns that never match the empty string (every
  pattern of the program that is split or substituted on is such a pattern). Each round
  consumes at least one character, so the length of the string bounds the rounds; a
  round that would consume nothing ends the scan.
\<close>

fun re_split_from :: "nat \<Rightarrow> rx \<Rightarrow> char option \<Rightarrow> string \<Rightarrow> string list" where
  "re_split_from 0 r p s = [s]"
| "re_split_from (Suc n) r p s =
     (case re_find_from r p [] s of
        None \<Rightarrow> [s]
      | Some (pre, (p', rest, g)) \<Rightarrow>
          if length rest < length s then pre # re_split_from n r p' rest else [s])"

definition re_split :: "rx \<Rightarrow> string \<Rightarrow> string list" where
  "re_split r s = re_split_from (length s) r None s"

text \<open>
  A match object as the replacement callbacks read it: \<open>m.group(0)\<close> and the numbered
  groups (\<open>None\<close> for a group that took no part in the match).
\<close>

record rx_match =
  whole :: string
  groups :: "(nat \<times> string) list"

definition group :: "rx_match \<Rightarrow> nat \<Rightarrow> string option" where
  "group m k = map_of (groups m) k"

fun re_sub_from :: "nat \<Rightarrow> rx \<Rightarrow> (rx_match \<Rightarrow> string) \<Rightarrow> char option \<Rightarrow> string \<Rightarrow> string" where
  "re_sub_from 0 r f p s = s"
| "re_sub_from (Suc n) r f p s =
     (case re_find_from r p [] s of
        None \<Rightarrow> s
      | Some (pre, (p', rest, g)) \<Rightarrow>
          if length rest < length s
          then pre @ f \<lparr>whole = take (length s - length pre - length rest) (drop (length pre) s),
                         groups = g\<rparr>
               @ re_sub_from n r f p' rest
          else s)"

definition re_sub :: "rx \<Rightarrow> (rx_match \<Rightarrow> string) \<Rightarrow> string \<Rightarrow> string" where
  "re_sub r f s = re_sub_from (length s) r f None s"

section \<open>Documents\<close>

text \<open>
  A parsed page as BeautifulSoup holds it: text nodes and elements with a name, a list of
  attributes and a list of children. What the program reads of a document is the text of
  its \<open>title\<close> element (if it has one) and the contents of its \<open>body\<close>.
\<close>

datatype node = Text string | Elem string "(string \<times> string) list" "node list"

record soup =
  soup_title :: "string option"
  soup_body :: "node list"

text \<open>\<open>tag.descendants\<close>: all nodes below a node, in document order.\<close>

fun descendants :: "node \<Rightarrow> node list" where
  "descendants (Text t) = []"
| "descendants (Elem n a cs) = concat (map (\<lambda>c. c # descendants c) cs)"

definition descendants_of :: "node list \<Rightarrow> node list" where
  "descendants_of ns = concat (map (\<lambda>c. c # descendants c) ns)"

fun is_tag :: "string list \<Rightarrow> node \<Rightarrow> bool" where
  "is_tag names (Text t) = False"
| "is_tag names (Elem n a cs) = (n \<in> set names)"

text \<open>\<open>find_all(names)\<close> on a container whose contents are \<open>ns\<close>.\<close>

definition find_all :: "string list \<Rightarrow> node list \<Rightarrow> node list" where
  "find_all names ns = filter (is_tag names) (descendants_of ns)"

fun text_nodes :: "node list \<Rightarrow> string list" where
  "text_nodes [] = []"
| "text_nodes (Text t # ns) = t # text_nodes ns"
| "text_nodes (Elem n a cs # ns) = text_nodes ns"

text \<open>
  \<open>get_text(sep, strip=True)\<close>: every string below the container is stripped, the empty
  ones are dropped and the rest are joined with the separator.
\<close>

definition stripped_strings :: "node list \<Rightarrow> string list" where
  "stripped_strings ns = filter (\<lambda>t. t \<noteq> []) (map strip (text_nodes (descendants_of ns)))"

definition get_text :: "string \<Rightarrow> node list \<Rightarrow> string" where
  "get_text sep ns = join sep (stripped_strings ns)"

fun get_attr :: "string \<Rightarrow> node \<Rightarrow> string option" where
  "get_attr k (Text t) = None"
| "get_attr k (Elem n a cs) = map_of a k"

subsection \<open>Serialisation\<close>

text \<open>
  \<open>str(node)\<close> under BeautifulSoup's default formatter: \<open>&\<close>, \<open><\<close> and \<open>>\<close> are escaped
  in text and in attribute values, an attribute value is put in double quotes (in single
  quotes when it holds a double quote and no single quote), and a void element without
  children is written \<open><name/>\<close>.
\<close>

definition escape_char :: "char \<Rightarrow> string" where
  "escape_char c =
     (if c = CHR ''&'' then ''&amp;'' else if c = CHR ''<'' then ''&lt;''
      else if c = CHR ''>'' then ''&gt;'' else [c])"

definition escape_text :: "string \<Rightarrow> string" where
  "escape_text s = concat (map escape_char s)"

definition dquote :: char where
  "dquote = CHR 0x22"

definition squote :: char where
  "squote = CHR 0x27"

definition quoted_attribute_value :: "string \<Rightarrow> string" where
  "quoted_attribute_value v =
     (if dquote \<in> set v
      then (if squote \<in> set v
            then [dquote] @ concat (map (\<lambda>c. if c = dquote then ''&quot;'' else [c]) v) @ [dquote]
            else [squote] @ v @ [squote])
      else [dquote] @ v @ [dquote])"

definition str_attrs :: "(string \<times> string) list \<Rightarrow> string" where
  "str_attrs a =
     concat (map (\<lambda>(k, v). '' '' @ k @ ''='' @ quoted_attribute_value (escape_text v)) a)"

definition void_tags :: "string list" where
  "void_tags = [''area'', ''base'', ''br'', ''col'', ''embed'', ''hr'', ''img'', ''input'',
     ''keygen'', ''link'', ''menuitem'', ''meta'', ''param'', ''source'', ''track'', ''wbr'',
     ''basefont'', ''bgsound'', ''command'', ''frame'', ''image'', ''isindex'', ''nextid'',
     ''spacer'']"

fun str_node :: "node \<Rightarrow> string" where
  "str_node (Text t) = escape_text t"
| "str_node (Elem n a cs) =
     (if cs = [] \<and> n \<in> set void_tags
      then ''<'' @ n @ str_attrs a @ ''/>''
      else ''<'' @ n @ str_attrs a @ ''>'' @ concat (map str_node cs) @ ''</'' @ n @ ''>'')"

text \<open>\<open>html.escape(s)\<close> of the standard library (quotes included).\<close>

definition html_escape_char :: "char \<Rightarrow> string" where
  "html_escape_char c =
     (if c = CHR ''&'' then ''&amp;'' else if c = CHR ''<'' then ''&lt;''
      else if c = CHR ''>'' then ''&gt;'' else if c = dquote then ''&quot;''
      else if c = squote then ''&#x27;'' else [c])"

definition html_escape :: "string \<Rightarrow> string" where
  "html_escape s = concat (map html_escape_char s)"

section \<open>The chapter gate\<close>

text \<open>
  The part of \<open>build_book\<close> that decides whether a cleaned page becomes a chapter. The
  patterns are the program's, written as \<open>rx\<close> terms (literals under \<open>re.I\<close> in lower
  case).
\<close>

definition visible_tag_re :: rx where
  "visible_tag_re = cat [Lit (CHR ''<''),
     alts (map istr [''img'', ''p'', ''h1'', ''h2'', ''h3'', ''h4'', ''h5'', ''h6'', ''ul'',
                     ''ol'', ''li'', ''a'', ''blockquote'', ''table'']),
     Wb]"

definition word_re :: rx where
  "word_re = Cls word_chars"

definition junk_re :: rx where
  "junk_re = cat [Bol,
     Plus (cat [Star (Cls space_chars),
        Grp 1 (alts [cat [istr ''il'', Plus (Cls space_chars), istr ''cammino'',
                          Plus (Cls space_chars), istr ''neocatecumenale'',
                          Star (NCls [CHR 0x0A])],
                     istr ''highlight'',
                     istr ''delete'',
                     cat [istr ''add'', Plus (Cls space_chars), istr ''note''],
                     cat [istr ''share'', Plus (Cls space_chars), istr ''quote''],
                     istr ''introduzione'']),
        Star (Cls space_chars)]),
     Eol]"

definition block_tag_re :: rx where
  "block_tag_re = cat [Lit (CHR ''<''), Star (Cls space_chars),
     alts (map istr [''p'', ''h1'', ''h2'', ''h3'', ''h4'', ''h5'', ''h6'', ''ul'', ''ol'',
                     ''li'', ''blockquote'', ''table'', ''img'']),
     Wb]"

definition blank_line_re :: rx where
  "blank_line_re = cat [Lit (CHR 0x0A), Star (Cls space_chars), Lit (CHR 0x0A)]"

text \<open>
  \<open>inner\<close>: the serialised contents of the body, stripped. (A parsed page that has any
  content has a \<open>body\<close> element; the model takes the body's contents as given.)
\<close>

definition page_inner :: "soup \<Rightarrow> string" where
  "page_inner s = strip (concat (map str_node (soup_body s)))"

definition has_visible :: "soup \<Rightarrow> bool" where
  "has_visible s = (re_search visible_tag_re (page_inner s) \<or> re_search word_re (page_inner s))"

text \<open>
  \<open>BeautifulSoup(inner, "lxml")\<close>: parsing the serialised fragment again gives the same
  nodes, but for two things the parser does: neighbouring text nodes (left side by side
  when a node between them was deleted) come back as one text node, and text that starts
  the fragment is put into an implied \<open>p\<close> element. Which of the following siblings
  the parser moves into that implied paragraph does not change the text, the images or
  the counts of \<open>p\<close> and \<open>a\<close> elements read below, so the model leaves them in place.
\<close>

fun merge_texts :: "node list \<Rightarrow> node list" where
  "merge_texts [] = []"
| "merge_texts (Text a # Text b # ns) = merge_texts (Text (a @ b) # ns)"
| "merge_texts (Text a # ns) = Text a # merge_texts ns"
| "merge_texts (Elem n at cs # ns) = Elem n at (merge_texts cs) # merge_texts ns"

definition reparse_fragment :: "node list \<Rightarrow> node list" where
  "reparse_fragment ns =
     (case merge_texts ns of
        Text t # rest \<Rightarrow> if strip t = [] then rest else Elem ''p'' [] [Text t] # rest
      | ms \<Rightarrow> ms)"

definition plain :: "soup \<Rightarrow> string" where
  "plain s = get_text '' '' (reparse_fragment (soup_body s))"

definition has_img :: "soup \<Rightarrow> bool" where
  "has_img s = (find_all [''img''] (reparse_fragment (soup_body s)) \<noteq> [])"

definition p_count :: "soup \<Rightarrow> nat" where
  "p_count s = length (find_all [''p''] (reparse_fragment (soup_body s)))"

definition a_count :: "soup \<Rightarrow> nat" where
  "a_count s = length (find_all [''a''] (reparse_fragment (soup_body s)))"

definition forced_keep :: "soup \<Rightarrow> bool" where
  "forced_keep s = (length (plain s) \<ge> 200)"

definition looks_junk :: "soup \<Rightarrow> bool" where
  "looks_junk s = (\<not> has_img s \<and> length (plain s) < 240 \<and> re_match junk_re (plain s))"

definition very_short :: "soup \<Rightarrow> bool" where
  "very_short s = (\<not> has_img s \<and> length (plain s) < 160 \<and> p_count s = 0 \<and> a_count s \<le> 5)"

definition doc_title :: "soup \<Rightarrow> string" where
  "doc_title s = (case soup_title s of None \<Rightarrow> [] | Some t \<Rightarrow> lower (get_text '' '' [Text t]))"

definition title_looks_chrome :: "soup \<Rightarrow> bool" where
  "title_looks_chrome s = contains ''il cammino neocatecumenale'' (doc_title s)"

definition body_too_small :: "soup \<Rightarrow> bool" where
  "body_too_small s = (\<not> has_img s \<and> length (plain s) < 400 \<and> p_count s \<le> 1)"

text \<open>The test of the first \<open>[SKIP]\<close>: the page is dropped as empty or UI-only.\<close>

definition skip_page :: "soup \<Rightarrow> bool" where
  "skip_page s =
     (\<not> forced_keep s \<and>
      ((page_inner s = [] \<or> \<not> has_visible s) \<or> looks_junk s \<or> very_short s \<or>
       (title_looks_chrome s \<and> body_too_small s)))"

text \<open>Wrapping plain text into paragraphs.\<close>

definition needs_wrap :: "soup \<Rightarrow> bool" where
  "needs_wrap s =
     (p_count s = 0 \<and>
      (\<not> contains ''<'' (page_inner s) \<or> \<not> re_search block_tag_re (page_inner s)))"

definition parts_txt :: "soup \<Rightarrow> string list" where
  "parts_txt s =
     (let parts = filter (\<lambda>t. t \<noteq> []) (map strip (re_split blank_line_re (plain s)))
      in if parts = [] \<and> strip (plain s) \<noteq> [] then [strip (plain s)] else parts)"

text \<open>
  The body markup of the chapter (\<open>inner\<close> after the wrapping step) and the nodes the
  validity check finds when it parses the chapter document built around that markup.
\<close>

definition chapter_inner :: "soup \<Rightarrow> string" where
  "chapter_inner s =
     (if needs_wrap s
      then join [CHR 0x0A] (map (\<lambda>t. ''<p>'' @ html_escape t @ ''</p>'') (parts_txt s))
      else page_inner s)"

fun paragraphs :: "string list \<Rightarrow> node list" where
  "paragraphs [] = []"
| "paragraphs [t] = [Elem ''p'' [] [Text t]]"
| "paragraphs (t # u # ts) = Elem ''p'' [] [Text t] # Text [CHR 0x0A] # paragraphs (u # ts)"

definition chapter_nodes :: "soup \<Rightarrow> node list" where
  "chapter_nodes s = (if needs_wrap s then paragraphs (parts_txt s) else soup_body s)"

text \<open>
  The validity check on the parsed chapter document: \<open>body_node.text\<close> is the text
  before the first element of the body, and the XPath query lists the elements of
  interest.
\<close>

definition content_tags :: "string list" where
  "content_tags = [''p'', ''img'', ''h1'', ''h2'', ''h3'', ''ul'', ''ol'', ''li'', ''a'',
                   ''blockquote'', ''table'']"

fun leading_text :: "node list \<Rightarrow> string" where
  "leading_text [] = []"
| "leading_text (Text t # ns) = t @ leading_text ns"
| "leading_text (Elem n a cs # ns) = []"

definition text_ok :: "node list \<Rightarrow> bool" where
  "text_ok ns = (strip (leading_text ns) \<noteq> [])"

definition elems_ok :: "node list \<Rightarrow> bool" where
  "elems_ok ns = (find_all content_tags ns \<noteq> [])"

definition is_valid :: "node list \<Rightarrow> bool" where
  "is_valid ns = (text_ok ns \<or> elems_ok ns)"

text \<open>
  The gate as a whole. \<open>Skip_empty\<close> is the first \<open>[SKIP]\<close> (before the chapter index
  is advanced), \<open>Skip_invalid\<close> the second one (after it), \<open>Keep\<close> carries the body
  markup of the accepted chapter.
\<close>

datatype gate = Skip_empty | Skip_invalid | Keep string

definition chapter_gate :: "soup \<Rightarrow> gate" where
  "chapter_gate s =
     (if skip_page s then Skip_empty
      else if is_valid (chapter_nodes s) then Keep (chapter_inner s)
      else Skip_invalid)"

section \<open>Assets\<close>

text \<open>
  Binary content is a list of byte values. An item of the package has a file name, its
  content and a media type. The HTTP session is a parameter: for a URL it gives the body
  and the \<open>Content-Type\<close> header of a successful response (the empty string when the
  header is missing), or \<open>None\<close> when the request fails or raises.
\<close>

type_synonym bytes = "nat list"

record epub_item =
  file_name :: string
  content :: bytes
  media_type :: string

type_synonym session = "string \<Rightarrow> (bytes \<times> string) option"

subsection \<open>Base64\<close>

definition b64_alphabet :: string where
  "b64_alphabet = upper_chars @ lower_chars @ digit_chars @ ''+/''"

fun index_of :: "'a \<Rightarrow> 'a list \<Rightarrow> nat option" where
  "index_of x [] = None"
| "index_of x (y # ys) = (if x = y then Some 0 else map_option Suc (index_of x ys))"

text \<open>
  \<open>base64.b64decode\<close> (not strict), as \<open>binascii.a2b_base64\<close> scans its input:
  characters outside the alphabet are skipped, a padding sequence that completes a
  quantum ends the scan, and input that ends inside a quantum is an error (\<open>None\<close>).
  The state is the position in the quantum, the bits left over and the padding seen.
\<close>

fun a2b_base64 :: "nat \<Rightarrow> nat \<Rightarrow> nat \<Rightarrow> string \<Rightarrow> bytes option" where
  "a2b_base64 q l pads [] = (if q = 0 then Some [] else None)"
| "a2b_base64 q l pads (c # s) =
     (if c = CHR ''='' then
        (if q \<ge> 2 then (if q + Suc pads \<ge> 4 then Some [] else a2b_base64 q l (Suc pads) s)
         else a2b_base64 q l pads s)
      else
        (case index_of c b64_alphabet of
           None \<Rightarrow> a2b_base64 q l pads s
         | Some v \<Rightarrow>
             if q = 0 then a2b_base64 1 v 0 s
             else if q = 1 then map_option ((#) (l * 4 + v div 16)) (a2b_base64 2 (v mod 16) 0 s)
             else if q = 2 then map_option ((#) (l * 16 + v div 4)) (a2b_base64 3 (v mod 4) 0 s)
             else map_option ((#) (l * 64 + v)) (a2b_base64 0 0 0 s)))"

definition b64decode :: "string \<Rightarrow> bytes option" where
  "b64decode s = a2b_base64 0 0 0 s"

definition b64_char :: "nat \<Rightarrow> char" where
  "b64_char n = b64_alphabet ! n"

fun b64encode :: "bytes \<Rightarrow> string" where
  "b64encode [] = []"
| "b64encode [a] = [b64_char (a div 4), b64_char ((a mod 4) * 16), CHR ''='', CHR ''='']"
| "b64encode [a, b] =
     [b64_char (a div 4), b64_char ((a mod 4) * 16 + b div 16), b64_char ((b mod 16) * 4),
      CHR ''='']"
| "b64encode (a # b # c # r) =
     [b64_char (a div 4), b64_char ((a mod 4) * 16 + b div 16),
      b64_char ((b mod 16) * 4 + c div 64), b64_char (c mod 64)] @ b64encode r"

subsection \<open>Fetching an image\<close>

text \<open>
  \<open>Path(url).suffix\<close>: the last component of the path (empty and \<open>.\<close> components
  do not count), from its last dot on when that dot is neither its first nor its last
  character.
\<close>

fun split_on :: "char \<Rightarrow> string \<Rightarrow> string list" where
  "split_on d [] = [[]]"
| "split_on d (c # s) =
     (if c = d then [] # split_on d s
      else (case split_on d s of x # xs \<Rightarrow> (c # x) # xs | [] \<Rightarrow> [[c]]))"

definition path_name :: "string \<Rightarrow> string" where
  "path_name url =
     (case filter (\<lambda>c. c \<noteq> [] \<and> c \<noteq> ''.'') (split_on (CHR ''/'') url) of
        [] \<Rightarrow> []
      | cs \<Rightarrow> last cs)"

definition path_suffix :: "string \<Rightarrow> string" where
  "path_suffix url =
     (let name = path_name url;
          i = length name - Suc (length (takeWhile (\<lambda>c. c \<noteq> CHR ''.'') (rev name)))
      in if CHR ''.'' \<in> set name \<and> 0 < i \<and> Suc i < length name then drop i name else [])"

definition response_ext :: "string \<Rightarrow> string \<Rightarrow> string" where
  "response_ext ctype url =
     (let ct = lower ctype in
      if contains ''jpeg'' ct \<or> contains ''jpg'' ct then ''.jpg''
      else if contains ''png'' ct then ''.png''
      else if contains ''gif'' ct then ''.gif''
      else if contains ''webp'' ct then ''.webp''
      else if contains ''svg'' ct then ''.svg''
      else (let from_urlext = path_suffix url in
            if lower from_urlext \<in> set [''.jpg'', ''.jpeg'', ''.png'', ''.gif'', ''.webp'', ''.svg'']
            then from_urlext else ''.bin''))"

definition download_image :: "session \<Rightarrow> string \<Rightarrow> (bytes \<times> string) option" where
  "download_image get url =
     (case get url of
        None \<Rightarrow> None
      | Some (body, ctype) \<Rightarrow> Some (body, response_ext ctype url))"

subsection \<open>Embedding the images of a page\<close>

text \<open>
  \<open>int(s)\<close> for an attribute value: surrounding white space, an optional sign and
  decimal digits. Anything else raises (\<open>None\<close>); digit groups separated by underscores,
  which Python also accepts, are not modelled.
\<close>

definition digit_val :: "char \<Rightarrow> int" where
  "digit_val c = (case index_of c digit_chars of Some d \<Rightarrow> int d | None \<Rightarrow> 0)"

definition py_int :: "string \<Rightarrow> int option" where
  "py_int s =
     (let t = strip s;
          neg = (t \<noteq> [] \<and> hd t = CHR ''-'');
          ds = (if t \<noteq> [] \<and> (hd t = CHR ''-'' \<or> hd t = CHR ''+'') then tl t else t)
      in if ds \<noteq> [] \<and> list_all (\<lambda>c. c \<in> set digit_chars) ds
         then (let v = foldl (\<lambda>a c. 10 * a + digit_val c) 0 ds
               in Some (if neg then - v else v))
         else None)"

text \<open>
  The tracking-pixel test. Both checks sit in one \<open>try\<close>: a width that does not parse
  ends the test with the image kept, whatever the height is.
\<close>

definition height_tiny :: "node \<Rightarrow> bool" where
  "height_tiny img =
     (case get_attr ''height'' img of
        None \<Rightarrow> False
      | Some h \<Rightarrow> h \<noteq> [] \<and> (case py_int h of None \<Rightarrow> False | Some n \<Rightarrow> n \<le> 1))"

definition tracking_pixel :: "node \<Rightarrow> bool" where
  "tracking_pixel img =
     (case get_attr ''width'' img of
        None \<Rightarrow> height_tiny img
      | Some w \<Rightarrow>
          if w = [] then height_tiny img
          else (case py_int w of
                  None \<Rightarrow> False
                | Some n \<Rightarrow> if n \<le> 1 then True else height_tiny img))"

text \<open>
  An inline \<open>data:\<close> reference: the header before the first comma gives the media
  type, the rest is decoded as base64. \<open>None\<close> is the \<open>except\<close> branch.
\<close>

definition data_header :: "string \<Rightarrow> string" where
  "data_header src = takeWhile (\<lambda>c. c \<noteq> CHR '','') src"

definition data_payload :: "string \<Rightarrow> string" where
  "data_payload src = drop 1 (dropWhile (\<lambda>c. c \<noteq> CHR '','') src)"

definition data_mime :: "string \<Rightarrow> string option" where
  "data_mime src =
     (case split_on (CHR '':'') (hd (split_on (CHR '';'') (data_header src))) of
        a # m # _ \<Rightarrow> Some m
      | _ \<Rightarrow> None)"

definition data_ext :: "string \<Rightarrow> string" where
  "data_ext mime =
     (if contains ''/jpeg'' mime \<or> contains ''/jpg'' mime then ''.jpg''
      else if contains ''/png'' mime then ''.png''
      else if contains ''/gif'' mime then ''.gif''
      else if contains ''/webp'' mime then ''.webp''
      else if contains ''/svg'' mime then ''.svg''
      else ''.bin'')"

definition decode_data_uri :: "string \<Rightarrow> (bytes \<times> string) option" where
  "decode_data_uri src =
     (if CHR '','' \<notin> set src then None
      else (case data_mime src of
              None \<Rightarrow> None
            | Some mime \<Rightarrow>
                (case b64decode (data_payload src) of
                   None \<Rightarrow> None
                 | Some bs \<Rightarrow> Some (bs, mime))))"

definition url_media :: "string \<Rightarrow> string" where
  "url_media ext =
     (case map_of [(''.jpg'', ''image/jpeg''), (''.jpeg'', ''image/jpeg''),
                   (''.png'', ''image/png''), (''.gif'', ''image/gif''),
                   (''.webp'', ''image/webp''), (''.svg'', ''image/svg+xml'')] (lower ext) of
        Some m \<Rightarrow> m
      | None \<Rightarrow> ''application/octet-stream'')"

text \<open>
  What the loop body of \<open>embed_images_and_rewrite\<close> does with one \<open>img\<close> element when
  the counter is \<open>k\<close>: \<open>None\<close> when the element is passed over (\<open>continue\<close>), or the
  item that is registered (its name is prefix, counter, extension).
\<close>

definition fetch_with_retry :: "session \<Rightarrow> string \<Rightarrow> (bytes \<times> string) option" where
  "fetch_with_retry get src =
     (case download_image get src of
        Some r \<Rightarrow> Some r
      | None \<Rightarrow> if starts_with src ''//'' then download_image get (''https:'' @ src) else None)"

definition embed_one :: "session \<Rightarrow> string \<Rightarrow> nat \<Rightarrow> node \<Rightarrow> epub_item option" where
  "embed_one get img_prefix k img =
     (case get_attr ''src'' img of
        None \<Rightarrow> None
      | Some src \<Rightarrow>
          if src = [] then None
          else if tracking_pixel img then None
          else if starts_with src ''data:'' then
            (case decode_data_uri src of
               None \<Rightarrow> None
             | Some (bs, mime) \<Rightarrow>
                 Some \<lparr>file_name = ''images/'' @ img_prefix @ str_nat k @ data_ext mime,
                       content = bs, media_type = mime\<rparr>)
          else
            (case fetch_with_retry get src of
               None \<Rightarrow> None
             | Some (bs, ext) \<Rightarrow>
                 Some \<lparr>file_name = ''images/'' @ img_prefix @ str_nat k @ ext,
                       content = bs, media_type = url_media ext\<rparr>))"

definition set_attr :: "string \<Rightarrow> string \<Rightarrow> (string \<times> string) list \<Rightarrow> (string \<times> string) list" where
  "set_attr k v a = map (\<lambda>(k', v'). if k' = k then (k', v) else (k', v')) a"

text \<open>
  The loop over \<open>soup.find_all("img")\<close>, in document order. The state is the counter and
  the items registered so far; an embedded image has its \<open>src\<close> rewritten to the item's
  file name, an image that is passed over is left as it is.
\<close>

type_synonym embed_state = "nat \<times> epub_item list"

fun embed_node :: "session \<Rightarrow> string \<Rightarrow> embed_state \<Rightarrow> node \<Rightarrow> node \<times> embed_state"
  and embed_nodes :: "session \<Rightarrow> string \<Rightarrow> embed_state \<Rightarrow> node list \<Rightarrow> node list \<times> embed_state"
where
  "embed_node get pre st (Text t) = (Text t, st)"
| "embed_node get pre st (Elem n a cs) =
     (if n = ''img'' then
        (case embed_one get pre (fst st) (Elem n a cs) of
           None \<Rightarrow>
             (let r = embed_nodes get pre st cs in (Elem n a (fst r), snd r))
         | Some item \<Rightarrow>
             (let r = embed_nodes get pre (Suc (fst st), snd st @ [item]) cs
              in (Elem n (set_attr ''src'' (file_name item) a) (fst r), snd r)))
      else (let r = embed_nodes get pre st cs in (Elem n a (fst r), snd r)))"
| "embed_nodes get pre st [] = ([], st)"
| "embed_nodes get pre st (c # cs) =
     (let r = embed_node get pre st c;
          rs = embed_nodes get pre (snd r) cs
      in (fst r # fst rs, snd rs))"

definition embed_images_and_rewrite :: "session \<Rightarrow> string \<Rightarrow> node list \<Rightarrow> node list \<times> epub_item list" where
  "embed_images_and_rewrite get img_prefix body =
     (let r = embed_nodes get img_prefix (1, []) body in (fst r, snd (snd r)))"

subsection \<open>The cover\<close>

definition cover_media :: "string \<Rightarrow> string" where
  "cover_media ext =
     (case map_of [(''.jpg'', ''image/jpeg''), (''.jpeg'', ''image/jpeg''),
                   (''.png'', ''image/png''), (''.gif'', ''image/gif''),
                   (''.webp'', ''image/webp'')] (lower ext) of
        Some m \<Rightarrow> m
      | None \<Rightarrow> ''image/jpeg'')"

definition pick_cover_from_first_image :: "session \<Rightarrow> node list \<Rightarrow> epub_item option" where
  "pick_cover_from_first_image get body =
     (case find_all [''img''] body of
        [] \<Rightarrow> None
      | first_img # _ \<Rightarrow>
          (case get_attr ''src'' first_img of
             None \<Rightarrow> None
           | Some src \<Rightarrow>
               if src = [] then None
               else if starts_with src ''data:'' then
                 (case decode_data_uri src of
                    None \<Rightarrow> None
                  | Some (bs, media) \<Rightarrow>
                      Some \<lparr>file_name = ''images/cover.jpg'', content = bs, media_type = media\<rparr>)
               else
                 (case download_image get src of
                    None \<Rightarrow> None
                  | Some (bs, ext) \<Rightarrow>
                      Some \<lparr>file_name = ''images/cover.jpg'', content = bs,
                            media_type = cover_media ext\<rparr>)))"

section \<open>Translation\<close>

text \<open>
  The translation adapter is a parameter. A call may fail (\<open>None\<close> stands for the raised
  exception); the attempt number is an argument, so that an adapter may fail on some
  attempts and succeed on others. \<open>has_batch\<close> tells whether the adapter offers
  \<open>translate_batch\<close>.
\<close>

record translator =
  has_batch :: bool
  translate_batch :: "nat \<Rightarrow> string list \<Rightarrow> string list option"
  translate :: "nat \<Rightarrow> string \<Rightarrow> string option"

datatype run_error = SysExit nat | RuntimeError

fun first_success :: "(nat \<Rightarrow> 'a option) \<Rightarrow> nat list \<Rightarrow> 'a option" where
  "first_success f [] = None"
| "first_success f (k # ks) = (case f k of Some r \<Rightarrow> Some r | None \<Rightarrow> first_success f ks)"

definition attempts :: "nat list" where
  "attempts = [0, 1, 2, 3, 4]"

fun translate_items :: "translator \<Rightarrow> string list \<Rightarrow> run_error + string list" where
  "translate_items tr [] = Inr []"
| "translate_items tr (t # ts) =
     (case first_success (\<lambda>k. translate tr k t) attempts of
        None \<Rightarrow> Inl RuntimeError
      | Some r \<Rightarrow>
          (case translate_items tr ts of Inl e \<Rightarrow> Inl e | Inr rs \<Rightarrow> Inr (r # rs)))"

definition translate_texts :: "translator option \<Rightarrow> string list \<Rightarrow> run_error + string list" where
  "translate_texts tro texts =
     (case tro of
        None \<Rightarrow> Inr texts
      | Some tr \<Rightarrow>
          if has_batch tr then
            (case first_success (\<lambda>k. translate_batch tr k texts) attempts of
               None \<Rightarrow> Inl RuntimeError
             | Some r \<Rightarrow> Inr r)
          else translate_items tr texts)"

definition translate_targets :: "string list" where
  "translate_targets = [''h1'', ''h2'', ''h3'', ''h4'', ''h5'', ''h6'', ''p'', ''li'',
     ''blockquote'', ''figcaption'', ''caption'', ''span'', ''div'']"

fun children :: "node \<Rightarrow> node list" where
  "children (Text t) = []"
| "children (Elem n a cs) = cs"

text \<open>The tags whose text is sent to the adapter.\<close>

definition to_translate :: "node \<Rightarrow> bool" where
  "to_translate e =
     (is_tag translate_targets e \<and>
      \<not> (find_all [''img''] (children e) \<noteq> [] \<and> get_text [] (children e) = []) \<and>
      get_text '' '' (children e) \<noteq> [])"

text \<open>
  Writing the translations back: the tags are taken in document order and paired with
  the translated texts; a tag that gets its text loses its children, and the tags below
  it (which were paired with texts of their own) go with them.
\<close>

fun assign_node :: "string list \<Rightarrow> nat \<Rightarrow> node \<Rightarrow> node \<times> nat"
  and assign_nodes :: "string list \<Rightarrow> nat \<Rightarrow> node list \<Rightarrow> node list \<times> nat"
where
  "assign_node tr i (Text t) = (Text t, i)"
| "assign_node tr i (Elem n a cs) =
     (if to_translate (Elem n a cs) then
        ((if i < length tr then Elem n a [Text (tr ! i)] else Elem n a cs),
         Suc i + length (filter to_translate (descendants (Elem n a cs))))
      else (let r = assign_nodes tr i cs in (Elem n a (fst r), snd r)))"
| "assign_nodes tr i [] = ([], i)"
| "assign_nodes tr i (c # cs) =
     (let r = assign_node tr i c;
          rs = assign_nodes tr (snd r) cs
      in (fst r # fst rs, snd rs))"

definition translate_soup_in_place :: "translator option \<Rightarrow> node list \<Rightarrow> run_error + node list" where
  "translate_soup_in_place tro body =
     (case tro of
        None \<Rightarrow> Inr body
      | Some tr \<Rightarrow>
          (let texts = map (\<lambda>e. get_text '' '' (children e))
                           (filter to_translate (descendants_of body))
           in if texts = [] then Inr body
              else (case translate_texts (Some tr) texts of
                      Inl e \<Rightarrow> Inl e
                    | Inr translated \<Rightarrow> Inr (fst (assign_nodes translated 0 body)))))"

section \<open>Building the book\<close>

record source_file =
  stem :: string
  cleaned :: soup

text \<open>
  A chapter as it is added to the book: \<open>ordinal\<close> is the value of \<open>chap_index\<close> that
  names its file, \<open>ch_body\<close> the body markup that is also kept for the flattened
  document.
\<close>

record book_chapter =
  ordinal :: nat
  ch_file_name :: string
  ch_title :: string
  ch_body :: string
  include_h1 :: bool

record book_state =
  file_idx :: nat
  chap_index :: nat
  items :: "epub_item list"
  cover :: "epub_item option"
  chapters :: "book_chapter list"

definition first_h1_text :: "node list \<Rightarrow> string" where
  "first_h1_text body =
     (case find_all [''h1''] body of [] \<Rightarrow> [] | h # _ \<Rightarrow> get_text [] (children h))"

definition extract_title :: "soup \<Rightarrow> string \<Rightarrow> string" where
  "extract_title s fallback =
     (if first_h1_text (soup_body s) \<noteq> [] then first_h1_text (soup_body s)
      else (case soup_title s of
              None \<Rightarrow> fallback
            | Some t \<Rightarrow> if get_text [] [Text t] \<noteq> [] then get_text [] [Text t] else fallback))"

definition initial_state :: book_state where
  "initial_state = \<lparr>file_idx = 0, chap_index = 0, items = [], cover = None, chapters = []\<rparr>"

text \<open>
  One round of the loop over the files. The cover is looked for on every file until one
  is found (\<open>cover_set\<close> is \<open>cover \<noteq> None\<close>); \<open>chap_index\<close> is advanced before the
  validity check.
\<close>

definition with_cover :: "session \<Rightarrow> node list \<Rightarrow> book_state \<Rightarrow> book_state" where
  "with_cover get body st =
     (if cover st = None then
        (case pick_cover_from_first_image get body of
           None \<Rightarrow> st
         | Some c \<Rightarrow> st\<lparr>items := items st @ [c], cover := Some c\<rparr>)
      else st)"

definition gate_step :: "source_file \<Rightarrow> soup \<Rightarrow> book_state \<Rightarrow> book_state" where
  "gate_step f sp st =
     (case chapter_gate sp of
        Skip_empty \<Rightarrow> st
      | Skip_invalid \<Rightarrow> st\<lparr>chap_index := Suc (chap_index st)\<rparr>
      | Keep inner \<Rightarrow>
          st\<lparr>chap_index := Suc (chap_index st),
             chapters := chapters st @
               [\<lparr>ordinal = Suc (chap_index st),
                 ch_file_name = ''chapters/ch_'' @ pad3 (Suc (chap_index st)) @ ''.xhtml'',
                 ch_title = (if first_h1_text (soup_body sp) \<noteq> [] then first_h1_text (soup_body sp)
                             else extract_title sp (stem f)),
                 ch_body = inner,
                 include_h1 = (first_h1_text (soup_body sp) \<noteq> [])\<rparr>]\<rparr>)"

definition process_file :: "session \<Rightarrow> translator option \<Rightarrow> book_state \<Rightarrow> source_file \<Rightarrow> run_error + book_state" where
  "process_file get tro st f =
     (let idx = Suc (file_idx st);
          emb = embed_images_and_rewrite get (''img_'' @ str_nat idx @ ''_'') (soup_body (cleaned f));
          st1 = st\<lparr>file_idx := idx, items := items st @ snd emb\<rparr>
      in case translate_soup_in_place tro (fst emb) of
           Inl e \<Rightarrow> Inl e
         | Inr body \<Rightarrow>
             Inr (gate_step f \<lparr>soup_title = soup_title (cleaned f), soup_body = body\<rparr>
                    (with_cover get body st1)))"

fun process_files :: "session \<Rightarrow> translator option \<Rightarrow> book_state \<Rightarrow> source_file list \<Rightarrow> run_error + book_state" where
  "process_files get tro st [] = Inr st"
| "process_files get tro st (f # fs) =
     (case process_file get tro st f of
        Inl e \<Rightarrow> Inl e
      | Inr st' \<Rightarrow> process_files get tro st' fs)"

section \<open>The flattened document\<close>

text \<open>
  The single HTML document built for the renderer: a head, then the bodies of the
  chapters with a page-break marker between two of them, each with its heading when
  \<open>include_h1\<close> is set.
\<close>

definition nl :: string where
  "nl = [CHR 0x0A]"

fun chapter_parts :: "bool \<Rightarrow> book_chapter list \<Rightarrow> string list" where
  "chapter_parts first [] = []"
| "chapter_parts first (c # cs) =
     (if first then [] else [''<div class=\"pagebreak\"></div>'']) @
     (if include_h1 c then [''<h1>'' @ html_escape (ch_title c) @ ''</h1>''] else []) @
     [ch_body c] @ chapter_parts False cs"

definition pagebreak_css :: string where
  "pagebreak_css = nl @ ''.pagebreak{ page-break-before: always; }'' @ nl"

definition compose_html :: "string \<Rightarrow> string \<Rightarrow> book_chapter list \<Rightarrow> string" where
  "compose_html title css chs =
     join nl ([''<!DOCTYPE html>'', ''<html>'', ''<head>'', ''<meta charset=\"utf-8\"/>'',
               ''<title>'' @ html_escape title @ ''</title>'',
               ''<style>'' @ css @ pagebreak_css @ ''</style>'', ''</head>'', ''<body>'']
              @ chapter_parts True chs @ [''</body>'', ''</html>''])"

subsection \<open>The images that are put back inline\<close>

text \<open>
  \<open>book.get_items_of_type(ITEM_IMAGE)\<close>: the package library (ebooklib, not part of
  this repository) reads the type of a plain item off the extension of its file name;
  the extensions below are the ones it files as images. \<open>splitext_ext\<close> is the
  extension as \<open>posixpath.splitext\<close> gives it.
\<close>

definition image_extensions :: "string list" where
  "image_extensions = [''.jpg'', ''.jpeg'', ''.gif'', ''.tiff'', ''.tif'', ''.png'']"

definition splitext_ext :: "string \<Rightarrow> string" where
  "splitext_ext p =
     (let name = rev (takeWhile (\<lambda>c. c \<noteq> CHR ''/'') (rev p));
          stem' = dropWhile (\<lambda>c. c = CHR ''.'') name
      in if CHR ''.'' \<in> set stem'
         then CHR ''.'' # rev (takeWhile (\<lambda>c. c \<noteq> CHR ''.'') (rev stem'))
         else [])"

definition is_image_item :: "epub_item \<Rightarrow> bool" where
  "is_image_item it = (lower (splitext_ext (file_name it)) \<in> set image_extensions)"

text \<open>
  \<open>img_items\<close>: file name to media type and base64 text. In the dictionary a later
  item with the same file name replaces an earlier one.
\<close>

definition img_items :: "epub_item list \<Rightarrow> string \<Rightarrow> (string \<times> string) option" where
  "img_items its =
     map_of (rev (map (\<lambda>it. (file_name it, (media_type it, b64encode (content it))))
                      (filter is_image_item its)))"

definition strip_char :: "char \<Rightarrow> string \<Rightarrow> string" where
  "strip_char q s = rev (dropWhile (\<lambda>c. c = q) (rev (dropWhile (\<lambda>c. c = q) s)))"

fun strip_leading :: "string \<Rightarrow> nat \<Rightarrow> string \<Rightarrow> string" where
  "strip_leading p 0 s = s"
| "strip_leading p (Suc n) s =
     (if p \<noteq> [] \<and> starts_with s p then strip_leading p n (drop (length p) s) else s)"

definition norm_path :: "string \<Rightarrow> string" where
  "norm_path path =
     (let p0 = strip_char squote (strip_char dquote (strip path));
          p1 = takeWhile (\<lambda>c. c \<noteq> CHR ''?'') (takeWhile (\<lambda>c. c \<noteq> CHR ''#'') p0);
          p2 = strip_leading ''./'' (length p1) p1;
          p3 = strip_leading ''../'' (length p2) p2;
          p4 = dropWhile (\<lambda>c. c = CHR ''/'') p3
      in if starts_with p4 ''images/'' then p4 else ''images/'' @ p4)"

subsection \<open>The patterns and their replacements\<close>

definition attr_pattern :: rx where
  "attr_pattern = cat [Wb,
     Grp 1 (alts (map istr [''src'', ''data'', ''data-src'', ''data-original'',
                            ''data-lazy-src'', ''href'', ''xlink:href''])),
     Star (Cls space_chars), Lit (CHR ''=''), Star (Cls space_chars),
     Grp 2 (alts [cat [Lit dquote, Grp 3 (Plus (NCls [dquote])), Lit dquote],
                  cat [Lit squote, Grp 4 (Plus (NCls [squote])), Lit squote],
                  Grp 5 (Plus (NCls (space_chars @ ''>'')))])]"

text \<open>\<open>m.group(3) or m.group(4) or m.group(5) or ''\<close>\<close>

definition attr_value :: "rx_match \<Rightarrow> string" where
  "attr_value m =
     (case group m 3 of
        Some v \<Rightarrow> v
      | None \<Rightarrow> (case group m 4 of
                   Some v \<Rightarrow> v
                 | None \<Rightarrow> (case group m 5 of Some v \<Rightarrow> v | None \<Rightarrow> [])))"

definition group1 :: "rx_match \<Rightarrow> string" where
  "group1 m = (case group m 1 of Some v \<Rightarrow> v | None \<Rightarrow> [])"

definition attr_repl :: "(string \<Rightarrow> (string \<times> string) option) \<Rightarrow> rx_match \<Rightarrow> string" where
  "attr_repl imgs m =
     (case imgs (norm_path (attr_value m)) of
        Some (mime, b64data) \<Rightarrow>
          group1 m @ ''='' @ [dquote] @ ''data:'' @ mime @ '';base64,'' @ b64data @ [dquote]
      | None \<Rightarrow> whole m)"

definition url_pattern :: rx where
  "url_pattern = cat [istr ''url'', Lit (CHR ''(''), Grp 1 (Plus (NCls '')'')), Lit (CHR '')'')]"

definition url_repl :: "(string \<Rightarrow> (string \<times> string) option) \<Rightarrow> rx_match \<Rightarrow> string" where
  "url_repl imgs m =
     (case imgs (norm_path (strip_char squote (strip_char dquote (strip (group1 m))))) of
        Some (mime, b64data) \<Rightarrow> ''url(data:'' @ mime @ '';base64,'' @ b64data @ '')''
      | None \<Rightarrow> whole m)"

definition url_not_data_pattern :: rx where
  "url_not_data_pattern = cat [istr ''url'', Lit (CHR ''(''),
     Grp 1 (Seq (NotAhead (istr ''data:'')) (Plus (NCls '')''))), Lit (CHR '')'')]"

definition srcset_dq_pattern :: rx where
  "srcset_dq_pattern = cat [Plus (Cls space_chars), istr ''srcset='', Lit dquote,
     Star (NCls [dquote]), Lit dquote]"

definition srcset_sq_pattern :: rx where
  "srcset_sq_pattern = cat [Plus (Cls space_chars), istr ''srcset='', Lit squote,
     Star (NCls [squote]), Lit squote]"

definition link_pattern :: rx where
  "link_pattern = cat [istr ''<link'', Wb, Star (NCls ''>''), Lit (CHR ''>'')]"

text \<open>
  \<open>_neutralize_external\<close>: what is left after the inlining is pointed at \<open>#\<close>, unless
  it is a \<open>data:\<close> reference, an anchor, or a \<open>mailto:\<close> or \<open>javascript:\<close> reference.
\<close>

definition neutralize_external :: "rx_match \<Rightarrow> string" where
  "neutralize_external m =
     (let val = strip (attr_value m); low = lower val in
      if starts_with low ''http://'' \<or> starts_with low ''https://'' \<or> starts_with val ''//''
      then group1 m @ ''='' @ [dquote] @ ''#'' @ [dquote]
      else if \<not> starts_with low ''data:'' \<and> \<not> starts_with val ''#'' \<and>
              \<not> (starts_with low ''mailto:'' \<or> starts_with low ''javascript:'')
      then group1 m @ ''='' @ [dquote] @ ''#'' @ [dquote]
      else whole m)"

text \<open>The passes over the composed document, in the program's order.\<close>

definition inline_images :: "epub_item list \<Rightarrow> string \<Rightarrow> string" where
  "inline_images its html =
     re_sub url_pattern (url_repl (img_items its))
       (re_sub attr_pattern (attr_repl (img_items its)) html)"

definition neutralize :: "string \<Rightarrow> string" where
  "neutralize html =
     re_sub link_pattern (\<lambda>m. [])
       (re_sub attr_pattern neutralize_external
         (re_sub srcset_sq_pattern (\<lambda>m. [])
           (re_sub srcset_dq_pattern (\<lambda>m. [])
             (re_sub url_not_data_pattern (\<lambda>m. ''url('' @ [squote, squote] @ '')'') html))))"

text \<open>
  The style sheet that hides header, footer and title artefacts, put in front of
  \<open></head>\<close> (or in front of the document when it has no \<open></head>\<close>). The accented letters
  of its one comment are written without their accents.
\<close>

definition hide_elements_css :: string where
  "hide_elements_css = join nl
    ['''',
     ''        <style type=\"text/css\">'',
     ''            @page {'',
     ''                margin: 0;'',
     ''                size: A4;'',
     ''                margin-top: 12mm;'',
     ''                margin-right: 12mm;'',
     ''                margin-bottom: 15mm;'',
     ''                margin-left: 12mm;'',
     ''            }'',
     ''            .header, .footer, [class*=\"header-\"], [class*=\"footer-\"] {'',
     ''                display: none !important;'',
     ''                height: 0 !important;'',
     ''                width: 0 !important;'',
     ''                overflow: hidden !important;'',
     ''            }'',
     ''            /* Skryti nazvu souboru */'',
     ''            .title, [class*=\"title\"], [id*=\"title\"] {'',
     ''                display: none !important;'',
     ''            }'',
     ''        </style>'',
     ''        '']"

text \<open>\<open>s.replace(old, new)\<close> for a non-empty \<open>old\<close>; the length of \<open>s\<close> bounds the scan.\<close>

fun replace_from :: "nat \<Rightarrow> string \<Rightarrow> string \<Rightarrow> string \<Rightarrow> string" where
  "replace_from 0 old new s = s"
| "replace_from (Suc n) old new s =
     (case s of
        [] \<Rightarrow> []
      | c # t \<Rightarrow>
          if old \<noteq> [] \<and> starts_with s old then new @ replace_from n old new (drop (length old) s)
          else c # replace_from n old new t)"

definition replace_all :: "string \<Rightarrow> string \<Rightarrow> string \<Rightarrow> string" where
  "replace_all old new s = replace_from (length s) old new s"

definition inject_css :: "string \<Rightarrow> string" where
  "inject_css html =
     (if contains ''</head>'' html
      then replace_all ''</head>'' (hide_elements_css @ ''</head>'') html
      else hide_elements_css @ html)"

definition flatten_document :: "string \<Rightarrow> string \<Rightarrow> book_state \<Rightarrow> string" where
  "flatten_document title css st =
     neutralize (inline_images (items st) (compose_html title css (chapters st)))"

definition rendered_document :: "string \<Rightarrow> string \<Rightarrow> book_state \<Rightarrow> string" where
  "rendered_document title css st = inject_css (flatten_document title css st)"

section \<open>The run\<close>

text \<open>
  \<open>build_book\<close> from the list of cleaned files on. What the run writes is listed in
  the order it is written: the package (\<open>epub.write_epub\<close>) and the flattened document
  handed to the renderer (with the renderer installed; whether the rendering then
  succeeds is outside the model). The result pairs the way the run ends with what it has
  written: \<open>None\<close> for a normal return, \<open>Some e\<close> for \<open>sys.exit\<close> or an exception that
  is not caught.

  \<open>requested\<close> is the translator as \<open>_get_google_translator\<close> returned it when the
  output language asks for a translation (\<open>Some None\<close> when it cannot be constructed),
  and \<open>None\<close> when no translation is asked for.
\<close>

datatype artefact =
    Package "book_chapter list" "epub_item list" "epub_item option"
  | Rendered string

record job =
  book_title :: string
  css_text :: string
  epub_output :: bool
  pdf_output :: bool
  lang :: string
  lang_out :: "string option"

definition translation_requested :: "job \<Rightarrow> bool" where
  "translation_requested j =
     (case lang_out j of
        None \<Rightarrow> False
      | Some lo \<Rightarrow> lower (strip lo) \<noteq> [] \<and> lower (strip lo) \<noteq> lower (strip (lang j)))"

definition write_outputs :: "job \<Rightarrow> book_state \<Rightarrow> artefact list" where
  "write_outputs j st =
     (if epub_output j then [Package (chapters st) (items st) (cover st)] else []) @
     (if pdf_output j then [Rendered (rendered_document (book_title j) (css_text j) st)] else [])"

definition build_book ::
  "job \<Rightarrow> session \<Rightarrow> translator option \<Rightarrow> source_file list \<Rightarrow> run_error option \<times> artefact list" where
  "build_book j get made files =
     (if files = [] then (Some (SysExit 1), [])
      else if translation_requested j \<and> made = None then (Some (SysExit 3), [])
      else
        (case process_files get (if translation_requested j then made else None)
                initial_state files of
           Inl e \<Rightarrow> (Some e, [])
         | Inr st \<Rightarrow>
             if chapters st = [] then (Some (SysExit 1), [])
             else (None, write_outputs j st)))"

section \<open>Two passes of the sanitizer\<close>

text \<open>
  \<open>clean_html_keep_structure\<close> is a sequence of passes over the page. Two of them are
  modelled here: the substitution that opens it and the pass that deletes empty
  containers.
\<close>

subsection \<open>The title patterns\<close>

text \<open>
  The first step deletes every match of ten patterns, one pattern after the other, from
  the raw markup (\<open>re.sub(pattern, '', html_content, flags=re.IGNORECASE)\<close>).
\<close>

definition title_patterns :: "rx list" where
  "title_patterns =
     [cat [istr ''il cammino neocatecumenale'', Opt (Lit (CHR ''_'')),
           istr '' storia e pratica religiosa (vol. i)'',
           Opt (istr ''.html''),
           Opt (cat [istr '' ('', Plus (Cls digit_chars), Lit (CHR '')'')])],
      istr ''il cammino neocatecumenale: storia e pratica religiosa (vol. i)'',
      istr ''il cammino neocatecumenale'',
      istr ''storia e pratica religiosa'',
      cat [istr ''vol'', Opt (Lit (CHR ''.'')), istr '' i''],
      istr ''highlightdelete add note share quote'',
      istr ''highlight'',
      istr ''delete'',
      istr ''add note'',
      istr ''share quote'']"

definition strip_title_patterns :: "string \<Rightarrow> string" where
  "strip_title_patterns html = foldl (\<lambda>h r. re_sub r (\<lambda>m. []) h) html title_patterns"

text \<open>
  The substitution runs on the markup before it is parsed. No pattern holds a character
  of a tag's punctuation, so on a page whose tag and attribute names hold no match the
  parsed result is the page with the substitution made inside its title, inside each of
  its text nodes and inside each attribute value; that is how the model applies it to a
  parsed page.
\<close>

fun sub_node :: "node \<Rightarrow> node" where
  "sub_node (Text t) = Text (strip_title_patterns t)"
| "sub_node (Elem n a cs) =
     Elem n (map (\<lambda>(k, v). (k, strip_title_patterns v)) a) (map sub_node cs)"

definition sub_title_patterns :: "soup \<Rightarrow> soup" where
  "sub_title_patterns s =
     \<lparr>soup_title = map_option strip_title_patterns (soup_title s),
      soup_body = map sub_node (soup_body s)\<rparr>"

subsection \<open>Empty containers\<close>






section \<open>Asset names\<close>

text \<open>
  Notions for stating what names the embedder issues. An extension is \<open>dotted\<close> when it
  starts with a dot. \<open>well_named pre k its\<close> says that the items carry the names built
  from the prefix \<open>pre\<close>, the counters \<open>k\<close>, \<open>k + 1\<close>, ... in this order, and a dotted
  extension each. \<open>counter_field\<close> reads the counter back from a name (the digits after
  its last underscore). \<open>run_items\<close> are the items a run without translation has
  registered after its last file. \<open>run_inv\<close> is the invariant of the loop over the
  files that the proof of uniqueness uses.
\<close>

definition dotted :: "string \<Rightarrow> bool" where
  "dotted e = (e \<noteq> [] \<and> hd e = CHR ''.'')"

fun well_named :: "string \<Rightarrow> nat \<Rightarrow> epub_item list \<Rightarrow> bool" where
  "well_named pre k [] = True"
| "well_named pre k (it # its) =
     ((\<exists>e. dotted e \<and> file_name it = ''images/'' @ pre @ str_nat k @ e) \<and>
      well_named pre (Suc k) its)"

definition run_inv :: "book_state \<Rightarrow> bool" where
  "run_inv st =
     (distinct (map file_name (items st)) \<and>
      (\<forall>it\<in>set (items st). file_name it = ''images/cover.jpg'' \<or>
         (\<exists>i r. i \<le> file_idx st \<and>
                file_name it = ''images/'' @ (''img_'' @ str_nat i @ ''_'') @ r)) \<and>
      (cover st = None \<longrightarrow> (\<forall>it\<in>set (items st). file_name it \<noteq> ''images/cover.jpg'')))"

definition run_items :: "session \<Rightarrow> source_file list \<Rightarrow> epub_item list" where
  "run_items get files =
     (case process_files get None initial_state files of Inl e \<Rightarrow> [] | Inr st \<Rightarrow> items st)"

definition counter_field :: "string \<Rightarrow> nat" where
  "counter_field name =
     foldl (\<lambda>a c. 10 * a + (case index_of c digit_chars of Some d \<Rightarrow> d | None \<Rightarrow> 0)) 0
       (takeWhile (\<lambda>c. c \<in> set digit_chars) (rev (takeWhile (\<lambda>c. c \<noteq> CHR ''_'') (rev name))))"


section \<open>Notions for the claims on translation and fetching\<close>





section \<open>Example pages and runs\<close>

text \<open>
  Concrete inputs for the theorems below. \<open>long_text\<close> is 200 letters;
  \<open>heading_only_page\<close> is the cleaned form of a page whose body is a single \<open>h4\<close>
  heading holding that text.
\<close>

definition long_text :: string where
  "long_text = replicate 200 (CHR ''x'')"

definition heading_only_page :: soup where
  "heading_only_page = \<lparr>soup_title = Some ''t'', soup_body = [Elem ''h4'' [] [Text long_text]]\<rparr>"

definition second_page :: soup where
  "second_page = \<lparr>soup_title = Some ''t'', soup_body = [Elem ''p'' [] [Text ''Second page.'']]\<rparr>"



definition epub_job :: job where
  "epub_job = \<lparr>book_title = ''Moje kniha'', css_text = [], epub_output = True,
                pdf_output = False, lang = ''cs'', lang_out = None\<rparr>"

definition offline :: session where
  "offline = (\<lambda>url. None)"

definition image_page :: soup where
  "image_page = \<lparr>soup_title = Some ''t'',
     soup_body = [Elem ''p'' [] [Text ''A picture.'',
                   Elem ''img'' [(''src'', ''data:image/gif;base64,R0lG'')] []]]\<rparr>"

definition two_image_files :: "source_file list" where
  "two_image_files = [\<lparr>stem = ''page1'', cleaned = image_page\<rparr>,
                      \<lparr>stem = ''page2'', cleaned = image_page\<rparr>]"



definition remote_image_page :: soup where
  "remote_image_page = \<lparr>soup_title = Some ''t'',
     soup_body = [Elem ''p'' [] [Text ''A picture.'',
                   Elem ''img'' [(''src'', ''http://example.org/a.png'')] []]]\<rparr>"


definition pixel_session :: session where
  "pixel_session = (\<lambda>url. if url = ''http://example.org/p.gif''
                             then Some ([71, 73, 70], ''image/gif'') else None)"

definition pixel_page :: soup where
  "pixel_page = \<lparr>soup_title = Some ''t'',
     soup_body = [Elem ''p'' [] [Text ''Another page.'',
                   Elem ''img'' [(''src'', ''http://example.org/p.gif''), (''width'', ''1'')] []]]\<rparr>"

definition pixel_cover :: epub_item where
  "pixel_cover = \<lparr>file_name = ''images/cover.jpg'', content = [71, 73, 70], media_type = ''image/gif''\<rparr>"

definition png_session :: session where
  "png_session = (\<lambda>url. if url = ''http://example.org/a.png''
                           then Some ([137, 80, 78, 71], ''image/png'') else None)"

definition png_item :: epub_item where
  "png_item = \<lparr>file_name = ''images/img_1_1.png'', content = [137, 80, 78, 71],
                media_type = ''image/png''\<rparr>"

definition embedded_image_page :: soup where
  "embedded_image_page = \<lparr>soup_title = Some ''t'',
     soup_body = [Elem ''p'' [] [Text ''A picture.'',
                   Elem ''img'' [(''src'', ''images/img_1_1.png'')] []]]\<rparr>"


definition chrome_page :: soup where
  "chrome_page = \<lparr>soup_title = Some ''Il Cammino Neocatecumenale: Storia e pratica religiosa (Vol. I)'',
     soup_body = [Elem ''p'' [] [Text ''Short text.'']]\<rparr>"

section \<open>Facts about strings and documents\<close>

lemma starts_with_append: "starts_with (p @ s) p"
  by (induction p) auto

lemma strip_id: "s \<noteq> [] \<Longrightarrow> \<not> is_space (hd s) \<Longrightarrow> \<not> is_space (last s) \<Longrightarrow> strip s = s"
proof -
  assume a: "s \<noteq> []" "\<not> is_space (hd s)" "\<not> is_space (last s)"
  have 1: "dropWhile is_space s = s" using a by (cases s) auto
  have 2: "dropWhile is_space (rev s) = rev s" using a by (cases "rev s") (auto simp: last_rev hd_rev)
  show ?thesis by (simp add: strip_def 1 2)
qed





lemma join_nonempty: "x \<noteq> [] \<Longrightarrow> join sep (x # xs) \<noteq> []"
  by (cases xs) auto





lemma leading_text_merge: "leading_text (merge_texts ns) = leading_text ns"
  by (induction ns rule: merge_texts.induct) auto

lemma long_text_facts:
  "length long_text = 200" "long_text \<noteq> []" "strip long_text = long_text"
  "escape_text long_text = long_text"
proof -
  show "length long_text = 200" by (simp add: long_text_def)
  show ne: "long_text \<noteq> []" by (simp add: long_text_def)
  have x: "\<not> is_space (CHR ''x'')" by (simp add: is_space_def space_chars_def)
  have "hd long_text = CHR ''x''" "last long_text = CHR ''x''" by (simp_all add: long_text_def)
  then show "strip long_text = long_text" using ne x by (intro strip_id) auto
  have "escape_text (replicate n (CHR ''x'')) = replicate n (CHR ''x'')" for n
    by (induction n) (auto simp: escape_text_def escape_char_def)
  then show "escape_text long_text = long_text" by (simp add: long_text_def)
qed

lemma block_tag_h4: "re_search block_tag_re (''<h4>'' @ rest)"
  by (simp add: re_search_def re_match_at_def block_tag_re_def cat_def alts_def istr_def
      at_boundary_def is_word_def word_chars_def lower_chars_def upper_chars_def digit_chars_def
      lower_char_def space_chars_def)

lemma plain_heading_only: "plain heading_only_page = long_text"
  by (simp add: plain_def heading_only_page_def reparse_fragment_def get_text_def
      stripped_strings_def descendants_of_def long_text_facts)

lemma inner_heading_only: "page_inner heading_only_page = ''<h4>'' @ long_text @ ''</h4>''"
proof -
  have "strip (''<h4>'' @ long_text @ ''</h4>'') = ''<h4>'' @ long_text @ ''</h4>''"
    by (rule strip_id) (simp_all add: is_space_def space_chars_def)
  then show ?thesis
    by (simp add: page_inner_def heading_only_page_def str_attrs_def void_tags_def long_text_facts)
qed

lemma gate_heading_only: "chapter_gate heading_only_page = Skip_invalid"
proof -
  have fk: "forced_keep heading_only_page"
    by (simp add: forced_keep_def plain_heading_only long_text_facts)
  have nw: "\<not> needs_wrap heading_only_page"
    using block_tag_h4[of "long_text @ ''</h4>''"]
    by (simp add: needs_wrap_def inner_heading_only)
  have iv: "\<not> is_valid (soup_body heading_only_page)"
    by (simp add: is_valid_def text_ok_def elems_ok_def heading_only_page_def find_all_def
        descendants_of_def content_tags_def strip_def)
  show ?thesis using fk nw iv
    by (simp add: chapter_gate_def skip_page_def chapter_nodes_def)
qed

lemma gate_second_page: "chapter_gate second_page = Keep ''<p>Second page.</p>''"
  by code_simp






section \<open>The chapter gate and forced keep (C1)\<close>




section \<open>Chapter ordinals (C2)\<close>

text \<open>
  C2 at a run of two files. The first page passes the first test of the gate and fails
  the validity check, after \<open>chap_index\<close> was advanced; the second page is accepted and
  becomes chapter 2 (\<open>ch_002.xhtml\<close>), and no chapter has the ordinal 1.
\<close>

theorem ordinal_gap_after_invalid_page:
  "build_book epub_job offline None
     [\<lparr>stem = ''page1'', cleaned = heading_only_page\<rparr>,
      \<lparr>stem = ''page2'', cleaned = second_page\<rparr>] =
   (None,
    [Package [\<lparr>ordinal = 2, ch_file_name = ''chapters/ch_002.xhtml'', ch_title = ''t'',
               ch_body = ''<p>Second page.</p>'', include_h1 = False\<rparr>] [] None])"
proof -
  have g1: "chapter_gate \<lparr>soup_title = Some ''t'', soup_body = [Elem ''h4'' [] [Text long_text]]\<rparr>
            = Skip_invalid"
    using gate_heading_only by (simp add: heading_only_page_def)
  have g2: "chapter_gate \<lparr>soup_title = Some ''t'', soup_body = [Elem ''p'' [] [Text ''Second page.'']]\<rparr>
            = Keep ''<p>Second page.</p>''"
    using gate_second_page by (simp add: second_page_def)
  have p: "pad3 (Suc (Suc 0)) = ''002''" by code_simp
  show ?thesis
    by (simp add: build_book_def epub_job_def translation_requested_def process_file_def
        embed_images_and_rewrite_def translate_soup_in_place_def with_cover_def
        pick_cover_from_first_image_def find_all_def descendants_of_def gate_step_def
        heading_only_page_def second_page_def g1 g2 p initial_state_def write_outputs_def
        first_h1_text_def extract_title_def get_text_def stripped_strings_def strip_def
        is_space_def space_chars_def Let_def)
qed

section \<open>Asset names (C3)\<close>

lemma digit_char_inj: "a < 10 \<Longrightarrow> b < 10 \<Longrightarrow> digit_char a = digit_char b \<Longrightarrow> a = b"
proof -
  have d: "distinct digit_chars" by (simp add: digit_chars_def)
  have l: "length digit_chars = 10" by (simp add: digit_chars_def)
  show "a < 10 \<Longrightarrow> b < 10 \<Longrightarrow> digit_char a = digit_char b \<Longrightarrow> a = b"
    unfolding digit_char_def using d l by (simp add: nth_eq_iff_index_eq)
qed

lemma digit_char_digit: "a < 10 \<Longrightarrow> digit_char a \<in> set digit_chars"
  unfolding digit_char_def by (rule nth_mem) (simp add: digit_chars_def)

lemma str_nat_nonempty: "str_nat n \<noteq> []"
  by (subst str_nat.simps) simp

lemma str_nat_digits: "set (str_nat n) \<subseteq> set digit_chars"
proof (induction n rule: str_nat.induct)
  case (1 n)
  show ?case
  proof (cases "n < 10")
    case True
    then show ?thesis by (subst str_nat.simps) (simp add: digit_char_digit)
  next
    case False
    then have "set (str_nat (n div 10)) \<subseteq> set digit_chars" using 1 by simp
    moreover have "digit_char (n mod 10) \<in> set digit_chars" by (simp add: digit_char_digit)
    ultimately show ?thesis using False by (subst str_nat.simps) simp
  qed
qed

lemma str_nat_length: "(length (str_nat n) = 1) = (n < 10)"
proof (cases "n < 10")
  case True
  then show ?thesis by (subst str_nat.simps) simp
next
  case False
  have "length (str_nat (n div 10)) \<ge> 1"
    using str_nat_nonempty[of "n div 10"] by (simp add: Suc_le_eq)
  moreover have "length (str_nat n) = length (str_nat (n div 10)) + 1"
    using False by (subst str_nat.simps) simp
  ultimately show ?thesis using False by linarith
qed

lemma str_nat_inj: "str_nat m = str_nat n \<Longrightarrow> m = n"
proof (induction n arbitrary: m rule: str_nat.induct)
  case (1 n)
  show ?case
  proof (cases "n < 10")
    case True
    then have "m < 10" using str_nat_length[of m] str_nat_length[of n] 1(2) by simp
    then have "[digit_char m] = [digit_char n]"
      using True 1(2) by (subst (asm) str_nat.simps, subst (asm) (2) str_nat.simps) simp
    then show ?thesis using True \<open>m < 10\<close> digit_char_inj by auto
  next
    case False
    then have m: "\<not> m < 10" using str_nat_length[of m] str_nat_length[of n] 1(2) by simp
    have "str_nat (m div 10) @ [digit_char (m mod 10)] = str_nat (n div 10) @ [digit_char (n mod 10)]"
      using 1(2) False m by (subst (asm) str_nat.simps, subst (asm) (2) str_nat.simps) simp
    then have a: "str_nat (m div 10) = str_nat (n div 10)"
      and b: "digit_char (m mod 10) = digit_char (n mod 10)" by auto
    have "m div 10 = n div 10" using 1(1)[OF False a] .
    moreover have "m mod 10 = n mod 10" using b digit_char_inj[of "m mod 10" "n mod 10"] by simp
    ultimately show ?thesis by (metis div_mult_mod_eq)
  qed
qed

lemma digits_split_unique:
  assumes "set d \<subseteq> set digit_chars" "set d' \<subseteq> set digit_chars"
    and "r \<noteq> []" "hd r \<notin> set digit_chars" "r' \<noteq> []" "hd r' \<notin> set digit_chars"
    and "d @ r = d' @ r'"
  shows "d = d' \<and> r = r'"
proof -
  have t: "takeWhile (\<lambda>c. c \<in> set digit_chars) (x @ y) = x"
    if "set x \<subseteq> set digit_chars" "y \<noteq> []" "hd y \<notin> set digit_chars" for x y
  proof -
    have "takeWhile (\<lambda>c. c \<in> set digit_chars) y = []" using that by (cases y) auto
    then show ?thesis using that(1) by (simp add: takeWhile_append2 subset_iff)
  qed
  have "takeWhile (\<lambda>c. c \<in> set digit_chars) (d @ r) = d"
    using t[OF assms(1) assms(3) assms(4)] .
  moreover have "takeWhile (\<lambda>c. c \<in> set digit_chars) (d' @ r') = d'"
    using t[OF assms(2) assms(5) assms(6)] .
  ultimately have "d = d'" using assms(7) by metis
  then show ?thesis using assms(7) by simp
qed


lemma well_named_append:
  "well_named pre k (xs @ ys) = (well_named pre k xs \<and> well_named pre (k + length xs) ys)"
  by (induction xs arbitrary: k) auto

lemma lower_char_dot: "lower_char c = CHR ''.'' \<Longrightarrow> c = CHR ''.''"
  by (auto simp: lower_char_def upper_chars_def lower_chars_def split: if_splits)

lemma lower_dotted: "dotted (lower e) \<Longrightarrow> dotted e"
  by (cases e) (auto simp: dotted_def lower_def lower_char_dot)

lemma response_ext_dotted: "dotted (response_ext ct u)"
proof -
  have "lower x \<in> set [''.jpg'', ''.jpeg'', ''.png'', ''.gif'', ''.webp'', ''.svg''] \<Longrightarrow> dotted x" for x
    by (rule lower_dotted) (auto simp: dotted_def)
  moreover have "dotted ''.jpg''" "dotted ''.png''" "dotted ''.gif''" "dotted ''.webp''"
    "dotted ''.svg''" "dotted ''.bin''" by (simp_all add: dotted_def)
  ultimately show ?thesis unfolding response_ext_def Let_def by presburger
qed

lemma download_image_dotted: "download_image get u = Some (bs, e) \<Longrightarrow> dotted e"
  by (auto simp: download_image_def response_ext_dotted split: option.splits)

lemma data_ext_dotted: "dotted (data_ext m)"
  by (simp add: data_ext_def dotted_def)

lemma embed_one_name:
  "embed_one get pre k img = Some it \<Longrightarrow>
   \<exists>e. dotted e \<and> file_name it = ''images/'' @ pre @ str_nat k @ e"
  by (auto simp: embed_one_def fetch_with_retry_def data_ext_dotted
      split: option.splits if_splits dest: download_image_dotted)

lemma embed_well_named:
  "\<exists>new. snd (snd (embed_node get pre st n)) = snd st @ new \<and>
         fst (snd (embed_node get pre st n)) = fst st + length new \<and>
         well_named pre (fst st) new"
  "\<exists>new. snd (snd (embed_nodes get pre st ns)) = snd st @ new \<and>
         fst (snd (embed_nodes get pre st ns)) = fst st + length new \<and>
         well_named pre (fst st) new"
proof (induction get pre st n and get pre st ns rule: embed_node_embed_nodes.induct)
  case (1 get pre st t)
  then show ?case by simp
next
  case (2 get pre st n a cs)
  show ?case
  proof (cases "n = ''img''")
    case False
    then show ?thesis using 2(3) by (simp add: Let_def)
  next
    case True
    show ?thesis
    proof (cases "embed_one get pre (fst st) (Elem n a cs)")
      case None
      then show ?thesis using True 2(1) by (simp add: Let_def)
    next
      case (Some item)
      obtain new where new:
        "snd (snd (embed_nodes get pre (Suc (fst st), snd st @ [item]) cs)) = (snd st @ [item]) @ new"
        "fst (snd (embed_nodes get pre (Suc (fst st), snd st @ [item]) cs)) = Suc (fst st) + length new"
        "well_named pre (Suc (fst st)) new"
        using 2(2)[OF True Some] by auto
      have "well_named pre (fst st) (item # new)"
        using new(3) embed_one_name[OF Some] by simp
      then show ?thesis using True Some new
        by (intro exI[of _ "item # new"]) (simp add: Let_def)
    qed
  qed
next
  case (3 get pre st)
  then show ?case by simp
next
  case (4 get pre st c cs)
  obtain n1 where n1:
    "snd (snd (embed_node get pre st c)) = snd st @ n1"
    "fst (snd (embed_node get pre st c)) = fst st + length n1"
    "well_named pre (fst st) n1"
    using 4(1) by auto
  obtain n2 where n2:
    "snd (snd (embed_nodes get pre (snd (embed_node get pre st c)) cs)) =
       snd (snd (embed_node get pre st c)) @ n2"
    "fst (snd (embed_nodes get pre (snd (embed_node get pre st c)) cs)) =
       fst (snd (embed_node get pre st c)) + length n2"
    "well_named pre (fst (snd (embed_node get pre st c))) n2"
    using 4(2)[OF refl] by auto
  show ?case using n1 n2
    by (intro exI[of _ "n1 @ n2"]) (simp add: Let_def well_named_append)
qed

lemma embed_images_well_named:
  "well_named pre 1 (snd (embed_images_and_rewrite get pre body))"
  using embed_well_named(2)[of get pre "(1, [])" body]
  by (auto simp: embed_images_and_rewrite_def Let_def)


lemma asset_counter_inj:
  assumes "dotted e" "dotted e'"
    and "''images/'' @ pre @ str_nat k @ e = ''images/'' @ pre @ str_nat k' @ e'"
  shows "k = k'"
proof -
  have dot: "CHR ''.'' \<notin> set digit_chars" by (simp add: digit_chars_def)
  have "str_nat k @ e = str_nat k' @ e'" using assms(3) by simp
  then have "str_nat k = str_nat k'"
    using digits_split_unique[OF str_nat_digits str_nat_digits, of e e' k k'] assms(1,2) dot
    by (simp add: dotted_def)
  then show ?thesis by (rule str_nat_inj)
qed

lemma asset_file_inj:
  assumes "''images/'' @ (''img_'' @ str_nat i @ ''_'') @ r = ''images/'' @ (''img_'' @ str_nat j @ ''_'') @ r'"
  shows "i = j"
proof -
  have us: "CHR ''_'' \<notin> set digit_chars" by (simp add: digit_chars_def)
  have "str_nat i @ (''_'' @ r) = str_nat j @ (''_'' @ r')" using assms by simp
  then have "str_nat i = str_nat j"
    using digits_split_unique[OF str_nat_digits str_nat_digits, of "''_'' @ r" "''_'' @ r'" i j] us
    by simp
  then show ?thesis by (rule str_nat_inj)
qed

lemma well_named_elem:
  "well_named pre k xs \<Longrightarrow> it \<in> set xs \<Longrightarrow>
   \<exists>j e. k \<le> j \<and> dotted e \<and> file_name it = ''images/'' @ pre @ str_nat j @ e"
proof (induction xs arbitrary: k)
  case Nil
  then show ?case by simp
next
  case (Cons x xs)
  show ?case
  proof (cases "it = x")
    case True
    then show ?thesis using Cons.prems(1) by auto
  next
    case False
    then have "it \<in> set xs" using Cons.prems(2) by simp
    then obtain j e where "Suc k \<le> j" "dotted e" "file_name it = ''images/'' @ pre @ str_nat j @ e"
      using Cons.IH[of "Suc k"] Cons.prems(1) by auto
    then show ?thesis by (intro exI[of _ j] exI[of _ e]) simp
  qed
qed

lemma well_named_distinct: "well_named pre k xs \<Longrightarrow> distinct (map file_name xs)"
proof (induction xs arbitrary: k)
  case Nil
  then show ?case by simp
next
  case (Cons x xs)
  obtain e where e: "dotted e" "file_name x = ''images/'' @ pre @ str_nat k @ e"
    using Cons.prems by auto
  have "file_name x \<noteq> file_name y" if yin: "y \<in> set xs" for y
  proof
    assume eq: "file_name x = file_name y"
    have wn: "well_named pre (Suc k) xs" using Cons.prems by simp
    from well_named_elem[OF wn yin]
    obtain j e' where j: "Suc k \<le> j" "dotted e'" "file_name y = ''images/'' @ pre @ str_nat j @ e'"
      by blast
    have "''images/'' @ pre @ str_nat k @ e = ''images/'' @ pre @ str_nat j @ e'"
      unfolding e(2)[symmetric] j(3)[symmetric] by (rule eq)
    then have "k = j" by (rule asset_counter_inj[OF e(1) j(2)])
    then show False using j(1) by simp
  qed
  moreover have "distinct (map file_name xs)" using Cons.IH[of "Suc k"] Cons.prems by simp
  ultimately show ?case by auto
qed

lemma cover_name: "pick_cover_from_first_image get body = Some c \<Longrightarrow> file_name c = ''images/cover.jpg''"
  by (auto simp: pick_cover_from_first_image_def split: list.splits option.splits if_splits)

lemma gate_step_frame:
  "items (gate_step f sp st) = items st" "cover (gate_step f sp st) = cover st"
  "file_idx (gate_step f sp st) = file_idx st"
  by (simp_all add: gate_step_def split: gate.splits)

lemma run_inv_gate_step: "run_inv st \<Longrightarrow> run_inv (gate_step f sp st)"
  by (simp add: run_inv_def gate_step_frame)

lemma run_inv_with_cover: "run_inv st \<Longrightarrow> run_inv (with_cover get body st)"
proof (cases "cover st = None")
  case False
  assume "run_inv st"
  then show ?thesis using False by (auto simp: with_cover_def)
next
  case True
  assume inv: "run_inv st"
  show ?thesis
  proof (cases "pick_cover_from_first_image get body")
    case None
    then show ?thesis using inv True by (simp add: with_cover_def)
  next
    case (Some c)
    have n: "file_name c = ''images/cover.jpg''" using cover_name[OF Some] .
    have w: "with_cover get body st = st\<lparr>items := items st @ [c], cover := Some c\<rparr>"
      using True Some by (simp add: with_cover_def)
    have "\<forall>it\<in>set (items st). file_name it \<noteq> file_name c"
      using inv True n unfolding run_inv_def by simp
    then have d: "distinct (map file_name (items st @ [c]))"
      using inv unfolding run_inv_def by auto
    have f: "\<forall>it\<in>set (items st @ [c]). file_name it = ''images/cover.jpg'' \<or>
         (\<exists>i r. i \<le> file_idx st \<and> file_name it = ''images/'' @ (''img_'' @ str_nat i @ ''_'') @ r)"
      using inv n unfolding run_inv_def by auto
    show ?thesis unfolding w run_inv_def using d f by simp
  qed
qed

lemma run_inv_embed:
  assumes "run_inv st" "well_named (''img_'' @ str_nat (Suc (file_idx st)) @ ''_'') 1 new"
  shows "run_inv (st\<lparr>file_idx := Suc (file_idx st), items := items st @ new\<rparr>)"
proof -
  let ?pre = "''img_'' @ str_nat (Suc (file_idx st)) @ ''_''"
  have newname: "\<exists>r. file_name y = ''images/'' @ ?pre @ r" if "y \<in> set new" for y
    using well_named_elem[OF assms(2) that] by auto
  have nocover: "file_name y \<noteq> ''images/cover.jpg''" if "y \<in> set new" for y
    using newname[OF that] by auto
  have disj: "file_name x \<noteq> file_name y" if xin: "x \<in> set (items st)" and yin: "y \<in> set new" for x y
  proof
    assume eq: "file_name x = file_name y"
    from newname[OF yin] obtain r where r: "file_name y = ''images/'' @ ?pre @ r" by blast
    have "file_name x \<noteq> ''images/cover.jpg''" using eq nocover[OF yin] by simp
    then obtain i r' where i: "i \<le> file_idx st"
        "file_name x = ''images/'' @ (''img_'' @ str_nat i @ ''_'') @ r'"
      using assms(1) xin unfolding run_inv_def by blast
    have "''images/'' @ (''img_'' @ str_nat i @ ''_'') @ r' =
          ''images/'' @ (''img_'' @ str_nat (Suc (file_idx st)) @ ''_'') @ r"
      unfolding i(2)[symmetric] r[symmetric] by (rule eq)
    then have "i = Suc (file_idx st)" by (rule asset_file_inj)
    then show False using i(1) by simp
  qed
  have d: "distinct (map file_name (items st @ new))"
    using assms(1) well_named_distinct[OF assms(2)] disj by (auto simp: run_inv_def)
  have f: "file_name it = ''images/cover.jpg'' \<or>
         (\<exists>i r. i \<le> Suc (file_idx st) \<and> file_name it = ''images/'' @ (''img_'' @ str_nat i @ ''_'') @ r)"
    if "it \<in> set (items st @ new)" for it
  proof (cases "it \<in> set new")
    case True
    then show ?thesis using newname[OF True] by blast
  next
    case False
    then have "it \<in> set (items st)" using that by simp
    then show ?thesis using assms(1) unfolding run_inv_def by (meson le_Suc_eq)
  qed
  have c: "cover st = None \<Longrightarrow> it \<in> set (items st @ new) \<Longrightarrow> file_name it \<noteq> ''images/cover.jpg''" for it
    using assms(1) nocover by (auto simp: run_inv_def)
  show ?thesis unfolding run_inv_def using d f c by simp
qed

lemma run_inv_process_file: "run_inv st \<Longrightarrow> process_file get tro st f = Inr st' \<Longrightarrow> run_inv st'"
proof -
  assume inv: "run_inv st" and p: "process_file get tro st f = Inr st'"
  define emb where "emb = embed_images_and_rewrite get (''img_'' @ str_nat (Suc (file_idx st)) @ ''_'')
      (soup_body (cleaned f))"
  define st1 where "st1 = st\<lparr>file_idx := Suc (file_idx st), items := items st @ snd emb\<rparr>"
  have 1: "run_inv st1"
    unfolding st1_def emb_def using run_inv_embed[OF inv embed_images_well_named] .
  have pf: "process_file get tro st f =
      (case translate_soup_in_place tro (fst emb) of
         Inl e \<Rightarrow> Inl e
       | Inr body \<Rightarrow> Inr (gate_step f \<lparr>soup_title = soup_title (cleaned f), soup_body = body\<rparr>
                            (with_cover get body st1)))"
    unfolding process_file_def Let_def st1_def emb_def ..
  obtain body where st': "st' = gate_step f \<lparr>soup_title = soup_title (cleaned f), soup_body = body\<rparr>
                            (with_cover get body st1)"
    using p unfolding pf by (cases "translate_soup_in_place tro (fst emb)") auto
  show ?thesis unfolding st' by (intro run_inv_gate_step run_inv_with_cover 1)
qed

lemma run_inv_process_files: "run_inv st \<Longrightarrow> process_files get tro st fs = Inr st' \<Longrightarrow> run_inv st'"
proof (induction fs arbitrary: st)
  case Nil
  then show ?case by simp
next
  case (Cons f fs)
  from Cons.prems(2) obtain st1 where 1: "process_file get tro st f = Inr st1"
    and 2: "process_files get tro st1 fs = Inr st'"
    by (cases "process_file get tro st f") auto
  show ?case using Cons.IH[OF run_inv_process_file[OF Cons.prems(1) 1] 2] .
qed

lemma run_inv_initial: "run_inv initial_state"
  by (simp add: run_inv_def initial_state_def)

lemma str_nat_small: "str_nat (Suc 0) = ''1''" "str_nat (Suc (Suc 0)) = ''2''"
  by code_simp+

lemma embed_image_page:
  "embed_images_and_rewrite offline (''img_'' @ d @ ''_'') (soup_body image_page) =
     ([Elem ''p'' [] [Text ''A picture.'',
         Elem ''img'' [(''src'', ''images/img_'' @ d @ ''_1.gif'')] []]],
      [\<lparr>file_name = ''images/img_'' @ d @ ''_1.gif'', content = [71, 73, 70], media_type = ''image/gif''\<rparr>])"
proof -
  have t: "\<not> tracking_pixel (Elem ''img'' [(''src'', ''data:image/gif;base64,R0lG'')] [])"
    by code_simp
  have d: "decode_data_uri ''data:image/gif;base64,R0lG'' = Some ([71, 73, 70], ''image/gif'')"
    by code_simp
  have e: "data_ext ''image/gif'' = ''.gif''" by code_simp
  have s: "str_nat (Suc 0) = ''1''" by code_simp
  show ?thesis
    by (simp add: embed_images_and_rewrite_def image_page_def embed_one_def t d e s set_attr_def Let_def)
qed

lemma no_cover_offline: "pick_cover_from_first_image offline
     [Elem ''p'' [] [Text ''A picture.'', Elem ''img'' [(''src'', ''images/img_'' @ d @ ''_1.gif'')] []]] = None"
  by (simp add: pick_cover_from_first_image_def find_all_def descendants_of_def
      download_image_def offline_def)

lemma two_image_names:
  "map file_name (run_items offline two_image_files) = [''images/img_1_1.gif'', ''images/img_2_1.gif'']"
  by (simp add: run_items_def two_image_files_def process_file_def Let_def initial_state_def
      str_nat_small embed_image_page[of "''1''", simplified] embed_image_page[of "''2''", simplified]
      translate_soup_in_place_def with_cover_def no_cover_offline[of "''1''", simplified]
      no_cover_offline[of "''2''", simplified] gate_step_frame)

text \<open>
  C3, as the program has it. The names of all items registered in a run (the embedded
  images of every file, and the cover) are pairwise distinct, whatever the files are:
  a document that occurs a second time in the run is embedded under the prefix of its
  own file index and gets new names. Within one call of the embedder the counter starts
  at 1 and goes up by one per embedded image; it is a local variable of the call, so it
  starts at 1 again for the next file.
\<close>

theorem asset_names_unique:
  "(process_files get tro initial_state files = Inr st \<longrightarrow> distinct (map file_name (items st))) \<and>
   well_named img_prefix 1 (snd (embed_images_and_rewrite get img_prefix body))"
  using run_inv_process_files[OF run_inv_initial, of get tro files st] embed_images_well_named
  by (auto simp: run_inv_def)


text \<open>
  The theorem at a run over two files with the same content, one inline image each.
\<close>

theorem asset_names_unique_witness:
  "(\<exists>st. process_files offline None initial_state two_image_files = Inr st \<and>
         map file_name (items st) = [''images/img_1_1.gif'', ''images/img_2_1.gif''] \<and>
         distinct (map file_name (items st))) \<and>
   well_named ''img_1_'' 1 (snd (embed_images_and_rewrite offline ''img_1_'' (soup_body image_page)))"
proof -
  obtain st where st: "process_files offline None initial_state two_image_files = Inr st"
    using two_image_names by (cases "process_files offline None initial_state two_image_files")
      (auto simp: run_items_def)
  have "map file_name (items st) = [''images/img_1_1.gif'', ''images/img_2_1.gif'']"
    using two_image_names st by (simp add: run_items_def)
  then show ?thesis
    using st asset_names_unique[of offline None two_image_files st "''img_1_''" "soup_body image_page"]
    by auto
qed

text \<open>
  The claim as it was stated says that the counter is never reset within a run. In the
  run over the two files the counter fields of the two issued names are 1 and 1: they
  do not increase.
\<close>

theorem counter_restarts_counterexample:
  "map counter_field (map file_name (run_items offline two_image_files)) = [1, 1] \<and>
   \<not> sorted_wrt (<) (map counter_field (map file_name (run_items offline two_image_files)))"
  unfolding two_image_names by code_simp

section \<open>Translation failure, the cover and failed fetches (C4, C5, C6)\<close>






























lemma pad3_small: "pad3 (Suc 0) = ''001''" "pad3 (Suc (Suc 0)) = ''002''"
  by code_simp+




lemma gate_pixel_page:
  "chapter_gate pixel_page
   = Keep ''<p>Another page.<img src=\"http://example.org/p.gif\" width=\"1\"/></p>''"
  by code_simp

lemma embed_pixel_page:
  "embed_images_and_rewrite pixel_session p (soup_body pixel_page) = (soup_body pixel_page, [])"
proof -
  have "tracking_pixel (Elem ''img'' [(''src'', ''http://example.org/p.gif''), (''width'', ''1'')] [])"
    by code_simp
  then show ?thesis
    by (simp add: embed_images_and_rewrite_def pixel_page_def embed_one_def Let_def)
qed

lemma cover_pixel_page: "pick_cover_from_first_image pixel_session (soup_body pixel_page) = Some pixel_cover"
  by code_simp

lemma cover_second_page: "pick_cover_from_first_image get (soup_body second_page) = None"
  by (simp add: pick_cover_from_first_image_def second_page_def find_all_def descendants_of_def)

lemma embed_second_page: "embed_images_and_rewrite get p (soup_body second_page) = (soup_body second_page, [])"
  by (simp add: embed_images_and_rewrite_def second_page_def Let_def)

lemma titles_small:
  "first_h1_text (soup_body second_page) = []" "extract_title second_page n = ''t''"
  "first_h1_text (soup_body pixel_page) = []" "extract_title pixel_page n = ''t''"
  by code_simp+

lemma embed_png_page:
  "embed_images_and_rewrite png_session ''img_1_'' (soup_body remote_image_page)
   = (soup_body embedded_image_page, [png_item])"
  by code_simp

lemma gate_embedded_image_page:
  "chapter_gate embedded_image_page = Keep ''<p>A picture.<img src=\"images/img_1_1.png\"/></p>''"
  by code_simp

lemma cover_embedded_image_page:
  "pick_cover_from_first_image png_session (soup_body embedded_image_page) = None"
  by code_simp

lemma titles_embedded:
  "first_h1_text (soup_body embedded_image_page) = []" "extract_title embedded_image_page n = ''t''"
  "soup_title remote_image_page = Some ''t''"
  by code_simp+

text \<open>
  C5 at two runs. In the first, the first file has no image and the second has a
  one-pixel image that the embedder passes over: the cover is that image, taken from the
  second chapter, although no image was embedded. In the second, the only file has an
  image that is embedded: the cover is looked for after the embedder has rewritten the
  \<open>src\<close> to the name inside the package, that name cannot be downloaded, and the
  book has no cover.
\<close>

theorem cover_from_later_tracking_pixel:
  "build_book epub_job pixel_session None
     [\<lparr>stem = ''page1'', cleaned = second_page\<rparr>, \<lparr>stem = ''page2'', cleaned = pixel_page\<rparr>]
   = (None,
      [Package
         [\<lparr>ordinal = 1, ch_file_name = ''chapters/ch_001.xhtml'', ch_title = ''t'',
            ch_body = ''<p>Second page.</p>'', include_h1 = False\<rparr>,
          \<lparr>ordinal = 2, ch_file_name = ''chapters/ch_002.xhtml'', ch_title = ''t'',
            ch_body = ''<p>Another page.<img src=\"http://example.org/p.gif\" width=\"1\"/></p>'',
            include_h1 = False\<rparr>]
         [pixel_cover] (Some pixel_cover)]) \<and>
   build_book epub_job png_session None [\<lparr>stem = ''page1'', cleaned = remote_image_page\<rparr>]
   = (None,
      [Package
         [\<lparr>ordinal = 1, ch_file_name = ''chapters/ch_001.xhtml'', ch_title = ''t'',
            ch_body = ''<p>A picture.<img src=\"images/img_1_1.png\"/></p>'', include_h1 = False\<rparr>]
         [png_item] None])"
proof -
  have r: "\<lparr>soup_title = soup_title second_page, soup_body = soup_body second_page\<rparr> = second_page"
    "\<lparr>soup_title = soup_title pixel_page, soup_body = soup_body pixel_page\<rparr> = pixel_page"
    "\<lparr>soup_title = Some ''t'', soup_body = soup_body embedded_image_page\<rparr> = embedded_image_page"
    by (simp_all add: embedded_image_page_def)
  have s: "str_nat (Suc 0) = ''1''" by code_simp
  have 1: "build_book epub_job pixel_session None
     [\<lparr>stem = ''page1'', cleaned = second_page\<rparr>, \<lparr>stem = ''page2'', cleaned = pixel_page\<rparr>]
   = (None,
      [Package
         [\<lparr>ordinal = 1, ch_file_name = ''chapters/ch_001.xhtml'', ch_title = ''t'',
            ch_body = ''<p>Second page.</p>'', include_h1 = False\<rparr>,
          \<lparr>ordinal = 2, ch_file_name = ''chapters/ch_002.xhtml'', ch_title = ''t'',
            ch_body = ''<p>Another page.<img src=\"http://example.org/p.gif\" width=\"1\"/></p>'',
            include_h1 = False\<rparr>]
         [pixel_cover] (Some pixel_cover)])"
    by (simp add: build_book_def epub_job_def translation_requested_def process_file_def Let_def
        r translate_soup_in_place_def with_cover_def gate_step_def gate_second_page gate_pixel_page
        embed_pixel_page embed_second_page cover_pixel_page cover_second_page
        initial_state_def pad3_small titles_small write_outputs_def)
  have 2: "build_book epub_job png_session None [\<lparr>stem = ''page1'', cleaned = remote_image_page\<rparr>]
   = (None,
      [Package
         [\<lparr>ordinal = 1, ch_file_name = ''chapters/ch_001.xhtml'', ch_title = ''t'',
            ch_body = ''<p>A picture.<img src=\"images/img_1_1.png\"/></p>'', include_h1 = False\<rparr>]
         [png_item] None])"
    by (simp add: build_book_def epub_job_def translation_requested_def process_file_def Let_def
        r s translate_soup_in_place_def with_cover_def gate_step_def gate_embedded_image_page
        embed_png_page[simplified] cover_embedded_image_page titles_embedded
        initial_state_def pad3_small write_outputs_def)
  show ?thesis using 1 2 by simp
qed

section \<open>Empty containers and the chrome title (C8, C10)\<close>



lemma stripped_strings_Nil: "stripped_strings [] = []"
  by (simp add: stripped_strings_def descendants_of_def)










lemma sub_chrome_page:
  "sub_title_patterns chrome_page = \<lparr>soup_title = Some [], soup_body = [Elem ''p'' [] [Text ''Short text.'']]\<rparr>"
  by code_simp

lemma gate_erased_title:
  "\<not> title_looks_chrome \<lparr>soup_title = Some [], soup_body = [Elem ''p'' [] [Text ''Short text.'']]\<rparr> \<and>
   \<not> has_img \<lparr>soup_title = Some [], soup_body = [Elem ''p'' [] [Text ''Short text.'']]\<rparr> \<and>
   length (plain \<lparr>soup_title = Some [], soup_body = [Elem ''p'' [] [Text ''Short text.'']]\<rparr>) < 200 \<and>
   p_count \<lparr>soup_title = Some [], soup_body = [Elem ''p'' [] [Text ''Short text.'']]\<rparr> \<le> 1 \<and>
   chapter_gate \<lparr>soup_title = Some [], soup_body = [Elem ''p'' [] [Text ''Short text.'']]\<rparr>
     = Keep ''<p>Short text.</p>''"
  by code_simp

lemma chrome_page_title: "title_looks_chrome chrome_page"
  by code_simp

text \<open>
  C10 at a page whose title is the chrome title and whose body is one short paragraph.
  The title as written in the file matches the gate's test, but the sanitizer's first
  step deletes the title patterns from the whole markup, the \<open>title\<close> element
  included: the gate sees an empty title, the chrome-title rule does not fire, and the
  page is kept.
\<close>

theorem chrome_title_is_erased:
  "title_looks_chrome chrome_page \<and>
   sub_title_patterns chrome_page = \<lparr>soup_title = Some [], soup_body = [Elem ''p'' [] [Text ''Short text.'']]\<rparr> \<and>
   \<not> title_looks_chrome (sub_title_patterns chrome_page) \<and>
   \<not> has_img (sub_title_patterns chrome_page) \<and>
   length (plain (sub_title_patterns chrome_page)) < 200 \<and>
   p_count (sub_title_patterns chrome_page) \<le> 1 \<and>
   chapter_gate (sub_title_patterns chrome_page) = Keep ''<p>Short text.</p>''"
  unfolding sub_chrome_page using chrome_page_title gate_erased_title by simp

end
